theory Spec2Isabelle
  imports Main "HOL-Library.Word" "HOL-Library.Log_Nat"
begin

section \<open>JavaScript values as the handlers of server/routes.ts see them\<close>

text \<open>
  A JavaScript string is a sequence of UTF-16 code units. The hashtag pattern of
  \<open>extractHashtags\<close> names code units up to U+017F, so a code unit is a 16-bit word and
  not an 8-bit \<open>char\<close>. \<open>lit\<close> writes an ASCII literal of the source as code units.
\<close>

type_synonym code_unit = "16 word"
type_synonym jsstring = "code_unit list"

definition lit :: "string \<Rightarrow> jsstring" where
  "lit s = map of_char s"

text \<open>
  A Number is a double. Its finite values are rationals; the two zeros are one value here
  (every use below treats them alike: both are falsy and both print as 0).
\<close>

datatype jsnum = NaN | PosInf | NegInf | Fin rat

text \<open>
  \<open>videoInfo\<close> is the result of \<open>JSON.parse\<close> and has type \<open>any\<close>: a JSON value. A
  property the object does not have reads as \<open>undefined\<close>.
\<close>

datatype jsval =
    JUndefined
  | JNull
  | JBool bool
  | JNum jsnum
  | JStr jsstring
  | JArr "jsval list"
  | JObj "(jsstring \<times> jsval) list"

text \<open>The exceptions the built expressions can throw inside the handler's \<open>try\<close>.\<close>

datatype js_error = TypeError | URIError

text \<open>ToBoolean: what \<open>!x\<close>, \<open>x || y\<close> and \<open>x ? a : b\<close> test.\<close>

fun truthy :: "jsval \<Rightarrow> bool" where
  "truthy JUndefined = False"
| "truthy JNull = False"
| "truthy (JBool b) = b"
| "truthy (JNum n) = (n \<noteq> NaN \<and> n \<noteq> Fin 0)"
| "truthy (JStr s) = (s \<noteq> [])"
| "truthy (JArr xs) = True"
| "truthy (JObj kvs) = True"

text \<open>\<open>a || b\<close>\<close>

definition jor :: "jsval \<Rightarrow> jsval \<Rightarrow> jsval" where
  "jor a b = (if truthy a then a else b)"

text \<open>
  \<open>videoInfo.k\<close> for a \<open>videoInfo\<close> that is neither \<open>null\<close> nor \<open>undefined\<close>. None of
  the property names the handler reads is a property of a string, number, boolean or array.
\<close>

fun get_prop :: "jsval \<Rightarrow> jsstring \<Rightarrow> jsval" where
  "get_prop (JObj kvs) k = (case map_of kvs k of None \<Rightarrow> JUndefined | Some v \<Rightarrow> v)"
| "get_prop v k = JUndefined"

section \<open>Number arithmetic\<close>

text \<open>
  The arithmetic operators return the double nearest to the exact result (round to
  nearest, ties to even, 53 significant bits, exponents down to the subnormal
  \<open>2 powi -1074\<close>, overflow to infinity).
\<close>

definition floor_log2 :: "rat \<Rightarrow> int" where
  "floor_log2 a =
     (let (p, q) = quotient_of a; k = bitlen p - bitlen q
      in if 2 powi k \<le> a then k else k - 1)"

definition round_half_even :: "rat \<Rightarrow> int" where
  "round_half_even m =
     (let f = \<lfloor>m\<rfloor>; r = m - of_int f
      in if r < 1 / 2 then f else if 1 / 2 < r then f + 1 else if even f then f else f + 1)"

definition rnd64 :: "rat \<Rightarrow> jsnum" where
  "rnd64 q =
     (if q = 0 then Fin 0
      else let a = \<bar>q\<bar>;
               e = max (floor_log2 a - 52) (- 1074);
               v = of_int (round_half_even (a / (2 powi e))) * (2 powi e)
           in if 2 powi 1024 \<le> v then (if q < 0 then NegInf else PosInf)
              else Fin (sgn q * v))"

text \<open>The value of a decimal literal of the source, such as \<open>0.1\<close>.\<close>

definition literal :: "rat \<Rightarrow> rat" where
  "literal q = (case rnd64 q of Fin r \<Rightarrow> r | _ \<Rightarrow> 0)"

text \<open>
  \<open>x / c\<close>, \<open>x * c\<close> and \<open>x % c\<close>: at every place of the source the right operand is a
  positive literal \<open>c\<close> (60, 1024, 1000, 0.1).
\<close>

fun js_div :: "jsnum \<Rightarrow> rat \<Rightarrow> jsnum" where
  "js_div (Fin x) c = rnd64 (x / c)"
| "js_div n c = n"

fun js_mul :: "jsnum \<Rightarrow> rat \<Rightarrow> jsnum" where
  "js_mul (Fin x) c = rnd64 (x * c)"
| "js_mul n c = n"

definition trunc :: "rat \<Rightarrow> int" where
  "trunc x = (if x < 0 then - \<lfloor>- x\<rfloor> else \<lfloor>x\<rfloor>)"

fun js_mod :: "jsnum \<Rightarrow> rat \<Rightarrow> jsnum" where
  "js_mod (Fin x) c = Fin (x - c * of_int (trunc (x / c)))"
| "js_mod n c = NaN"

text \<open>\<open>Math.floor\<close> and \<open>Math.round\<close>\<close>

fun js_floor :: "jsnum \<Rightarrow> jsnum" where
  "js_floor (Fin x) = Fin (of_int \<lfloor>x\<rfloor>)"
| "js_floor n = n"

fun js_round :: "jsnum \<Rightarrow> jsnum" where
  "js_round (Fin x) = Fin (of_int \<lfloor>x + 1 / 2\<rfloor>)"
| "js_round n = n"

section \<open>Built-ins of the host\<close>

text \<open>
  The handlers call built-ins of the JavaScript engine whose results depend on the host
  (its Unicode and locale data, its time zone) or on algorithms outside this repository.
  They are parameters of the model:
  \<^item> \<open>StringToNumber\<close>: the numeric value of a string (\<open>NaN\<close> when it is no numeral);
  \<^item> \<open>NumberToString\<close>: Number::toString of a finite number that is not an integer below
    \<open>2 ^ 53\<close> in magnitude: the shortest digits that read back as the same double, in
    fixed or exponent notation;
  \<^item> \<open>toUpperCase\<close>: \<open>String.prototype.toUpperCase\<close>;
  \<^item> \<open>encodeURIComponent\<close>: \<open>None\<close> when it throws \<open>URIError\<close> (a lone surrogate);
  \<^item> \<open>DateParse\<close>: the time value in milliseconds of a date string, \<open>NaN\<close> when the engine
    rejects it;
  \<^item> \<open>LocalTZA\<close>: the offset in milliseconds of the host's local time from UTC at a time
    value;
  \<^item> \<open>EraDateString\<close>: the en-US long date of a time value whose local year is before year
    1.
\<close>

record platform =
  StringToNumber :: "jsstring \<Rightarrow> jsnum"
  NumberToString :: "rat \<Rightarrow> jsstring"
  toUpperCase :: "jsstring \<Rightarrow> jsstring"
  encodeURIComponent :: "jsstring \<Rightarrow> jsstring option"
  DateParse :: "jsstring \<Rightarrow> jsnum"
  LocalTZA :: "rat \<Rightarrow> int"
  EraDateString :: "rat \<Rightarrow> jsstring"

subsection \<open>Conversions\<close>

definition digit :: "nat \<Rightarrow> code_unit" where
  "digit d = of_nat (48 + d)"

fun digits :: "nat \<Rightarrow> jsstring" where
  "digits n = (if n < 10 then [digit n] else digits (n div 10) @ [digit (n mod 10)])"

declare digits.simps [simp del]

definition is_integer :: "rat \<Rightarrow> bool" where
  "is_integer q = (of_int \<lfloor>q\<rfloor> = q)"

text \<open>
  Number::toString prints the shortest digits that read back as the same double. Every
  integer below \<open>2 ^ 53\<close> in magnitude is a double of its own, so it prints with its exact
  digits; from \<open>2 ^ 53\<close> on the shortest digits are padded with zeros and differ from the
  exact ones (\<open>2 ^ 60\<close> prints as 1152921504606847000).
\<close>

fun num_to_string :: "platform \<Rightarrow> jsnum \<Rightarrow> jsstring" where
  "num_to_string p NaN = lit ''NaN''"
| "num_to_string p PosInf = lit ''Infinity''"
| "num_to_string p NegInf = lit ''-Infinity''"
| "num_to_string p (Fin q) =
     (if is_integer q \<and> \<bar>q\<bar> < 2 ^ 53
      then (if q < 0 then lit ''-'' else []) @ digits (nat \<bar>\<lfloor>q\<rfloor>\<bar>)
      else NumberToString p q)"

text \<open>\<open>Array.prototype.join\<close> with separator \<open>,\<close>, on elements already converted.\<close>

fun join_comma :: "jsstring list \<Rightarrow> jsstring" where
  "join_comma [] = []"
| "join_comma [s] = s"
| "join_comma (s # t # ss) = s @ lit '','' @ join_comma (t # ss)"

text \<open>ToString, as a template literal and \<open>RegExp.prototype.test\<close> apply it.\<close>

fun to_string :: "platform \<Rightarrow> jsval \<Rightarrow> jsstring" where
  "to_string p JUndefined = lit ''undefined''"
| "to_string p JNull = lit ''null''"
| "to_string p (JBool b) = (if b then lit ''true'' else lit ''false'')"
| "to_string p (JNum n) = num_to_string p n"
| "to_string p (JStr s) = s"
| "to_string p (JArr xs) =
     join_comma (map (\<lambda>x. if x = JUndefined \<or> x = JNull then [] else to_string p x) xs)"
| "to_string p (JObj kvs) = lit ''[object Object]''"

text \<open>ToNumber, as the arithmetic operators apply it.\<close>

fun to_number :: "platform \<Rightarrow> jsval \<Rightarrow> jsnum" where
  "to_number p JUndefined = NaN"
| "to_number p JNull = Fin 0"
| "to_number p (JBool b) = (if b then Fin 1 else Fin 0)"
| "to_number p (JNum n) = n"
| "to_number p (JStr s) = StringToNumber p s"
| "to_number p (JArr xs) = StringToNumber p (to_string p (JArr xs))"
| "to_number p (JObj kvs) = StringToNumber p (to_string p (JObj kvs))"

text \<open>\<open>String.prototype.padStart(n, c)\<close> with a one-unit filler.\<close>

definition padStart :: "nat \<Rightarrow> code_unit \<Rightarrow> jsstring \<Rightarrow> jsstring" where
  "padStart n c s = replicate (n - length s) c @ s"

text \<open>\<open>String.prototype.substring(i, j)\<close> for \<open>i \<le> j\<close>.\<close>

definition substring :: "nat \<Rightarrow> nat \<Rightarrow> jsstring \<Rightarrow> jsstring" where
  "substring i j s = take (j - i) (drop i s)"

text \<open>
  \<open>Number.prototype.toFixed(f)\<close>: a number that is not finite, or is at least \<open>10 ^ 21\<close> in
  magnitude, prints as Number::toString does; otherwise the integer \<open>n\<close> nearest to
  \<open>x * 10 ^ f\<close> (the larger one on a tie) is printed with \<open>f\<close> digits after the point.
\<close>

definition fixed_digits :: "nat \<Rightarrow> nat \<Rightarrow> jsstring" where
  "fixed_digits f n =
     (let m = padStart (f + 1) (digit 0) (digits n); k = length m
      in if f = 0 then m else take (k - f) m @ lit ''.'' @ drop (k - f) m)"

fun toFixed :: "platform \<Rightarrow> nat \<Rightarrow> jsnum \<Rightarrow> jsstring" where
  "toFixed p f (Fin x) =
     (let s = (if x < 0 then lit ''-'' else []); a = \<bar>x\<bar>
      in if 10 ^ 21 \<le> a then s @ num_to_string p (Fin a)
         else s @ fixed_digits f (nat \<lfloor>a * 10 ^ f + 1 / 2\<rfloor>))"
| "toFixed p f n = num_to_string p n"

section \<open>The formatting functions of the metadata handler\<close>

text \<open>\<open>formatDuration\<close> (routes.ts, lines 34 to 39)\<close>

definition formatDuration :: "platform \<Rightarrow> jsval \<Rightarrow> jsstring" where
  "formatDuration p seconds =
     (if \<not> truthy seconds then lit ''00:00''
      else let mins = js_floor (js_div (to_number p seconds) 60);
               secs = js_floor (js_mod (to_number p seconds) 60)
           in num_to_string p mins @ lit '':'' @ padStart 2 (digit 0) (num_to_string p secs))"

text \<open>\<open>formatFileSize\<close> (lines 48 to 52)\<close>

definition formatFileSize :: "platform \<Rightarrow> jsval \<Rightarrow> jsstring" where
  "formatFileSize p bytes =
     (if \<not> truthy bytes then lit ''N/A''
      else let mb = js_div (js_div (to_number p bytes) 1024) 1024
           in toFixed p 2 mb @ lit '' MB'')"

text \<open>
  \<open>extractHashtags\<close> (lines 55 to 60). The pattern is \<open>#\<close>, then one or more characters
  of the class made of \<open>\w\<close> and the range U+00C0 to U+017F, with the flag \<open>g\<close>. It has no
  \<open>u\<close> or \<open>i\<close> flag: it works on code units, and \<open>\w\<close> is \<open>[A-Za-z0-9_]\<close>.
\<close>

definition hash_sign :: code_unit where
  "hash_sign = 0x23"

definition tag_char :: "code_unit \<Rightarrow> bool" where
  "tag_char c =
     ((0x41 \<le> c \<and> c \<le> 0x5A) \<or> (0x61 \<le> c \<and> c \<le> 0x7A) \<or> (0x30 \<le> c \<and> c \<le> 0x39)
      \<or> c = 0x5F \<or> (0xC0 \<le> c \<and> c \<le> 0x17F))"

text \<open>
  \<open>text.match(hashtagRegex)\<close> with the \<open>g\<close> flag: the matcher tries each position from
  left to right; a match is \<open>#\<close> and the longest run of class characters after it (the
  \<open>+\<close> is greedy and nothing follows it), at least one; the search goes on after the
  match. The result is \<open>null\<close> when nothing matched.
\<close>

function match_all :: "jsstring \<Rightarrow> jsstring list" where
  "match_all [] = []"
| "match_all (c # cs) =
     (if c = hash_sign \<and> takeWhile tag_char cs \<noteq> []
      then (c # takeWhile tag_char cs) # match_all (dropWhile tag_char cs)
      else match_all cs)"
  by pat_completeness auto
termination
  by (relation "measure length") (auto simp: less_Suc_eq_le length_dropWhile_le)

definition string_match :: "jsstring \<Rightarrow> jsstring list option" where
  "string_match s = (case match_all s of [] \<Rightarrow> None | m # ms \<Rightarrow> Some (m # ms))"

definition extractHashtags :: "jsval \<Rightarrow> js_error + jsstring list" where
  "extractHashtags v =
     (if \<not> truthy v then Inr []
      else case v of
             JStr s \<Rightarrow>
               (case string_match s of
                  Some matches \<Rightarrow> Inr (map (drop 1) matches)
                | None \<Rightarrow> Inr [])
           | _ \<Rightarrow> Inl TypeError)"

text \<open>
  \<open>formatDate\<close> (lines 63 to 89). \<open>date\<close> is \<open>null\<close> (\<open>None\<close>) or a Date object, which
  is its time value, \<open>NaN\<close> for an invalid date. A Date object is truthy also when it is
  invalid. \<open>/^\d{8}$/.test\<close> converts its argument to a string; \<open>substring\<close> exists on
  strings only.
\<close>

definition is_digit :: "code_unit \<Rightarrow> bool" where
  "is_digit c = (0x30 \<le> c \<and> c \<le> 0x39)"

definition eight_digits :: "jsstring \<Rightarrow> bool" where
  "eight_digits s = (length s = 8 \<and> list_all is_digit s)"

text \<open>TimeClip and \<open>new Date(number)\<close>\<close>

fun time_clip :: "jsnum \<Rightarrow> jsnum" where
  "time_clip (Fin t) = (if 8640000000000000 < \<bar>t\<bar> then NaN else Fin (of_int (trunc t)))"
| "time_clip n = NaN"

text \<open>
  \<open>date.toLocaleDateString('en-US', { year: 'numeric', month: 'long', day: 'numeric' })\<close>
  is given no \<open>timeZone\<close>: it prints the calendar day of the host's local time, in the
  proleptic Gregorian calendar, as "Month day, year". \<open>civil_from_days\<close> is the year, month
  and day of a day number counted from 1 January 1970.
\<close>

definition civil_from_days :: "int \<Rightarrow> int \<times> int \<times> int" where
  "civil_from_days n =
     (let z = n + 719468;
          era = z div 146097;
          doe = z - era * 146097;
          yoe = (doe - doe div 1460 + doe div 36524 - doe div 146096) div 365;
          doy = doe - (365 * yoe + yoe div 4 - yoe div 100);
          mp = (5 * doy + 2) div 153;
          d = doy - (153 * mp + 2) div 5 + 1;
          m = (if mp < 10 then mp + 3 else mp - 9)
      in (yoe + era * 400 + (if m \<le> 2 then 1 else 0), m, d))"

definition month_name :: "int \<Rightarrow> jsstring" where
  "month_name m =
     lit ([''January'', ''February'', ''March'', ''April'', ''May'', ''June'', ''July'',
           ''August'', ''September'', ''October'', ''November'', ''December''] ! nat (m - 1))"

definition long_date :: "int \<times> int \<times> int \<Rightarrow> jsstring" where
  "long_date ymd =
     (case ymd of (y, m, d) \<Rightarrow>
        month_name m @ lit '' '' @ digits (nat d) @ lit '', '' @ digits (nat y))"

definition local_day :: "platform \<Rightarrow> rat \<Rightarrow> int" where
  "local_day p t = \<lfloor>(t + of_int (LocalTZA p t)) / 86400000\<rfloor>"

definition toLocaleDateString :: "platform \<Rightarrow> rat \<Rightarrow> jsstring" where
  "toLocaleDateString p t =
     (if 1 \<le> fst (civil_from_days (local_day p t)) then long_date (civil_from_days (local_day p t))
      else EraDateString p t)"

definition formatDate :: "platform \<Rightarrow> jsval \<Rightarrow> jsval \<Rightarrow> js_error + jsstring" where
  "formatDate p uploadDate timestamp =
     (case (if truthy uploadDate \<and> eight_digits (to_string p uploadDate)
            then (case uploadDate of
                    JStr s \<Rightarrow>
                      (let year = substring 0 4 s; month = substring 4 6 s; day = substring 6 8 s
                       in Inr (Some (DateParse p (year @ lit ''-'' @ month @ lit ''-'' @ day))))
                  | _ \<Rightarrow> Inl TypeError)
            else Inr None) of
        Inl e \<Rightarrow> Inl e
      | Inr date1 \<Rightarrow>
          (let date2 = (if date1 = None \<and> truthy timestamp
                        then Some (time_clip (js_mul (to_number p timestamp) 1000))
                        else date1)
           in case date2 of
                None \<Rightarrow> Inr (lit ''Unknown'')
              | Some (Fin t) \<Rightarrow> Inr (toLocaleDateString p t)
              | Some _ \<Rightarrow> Inr (lit ''Unknown'')))"

section \<open>The response document\<close>

text \<open>
  \<open>responseData\<close> (lines 91 to 146) is an object literal; each field holds a JavaScript
  value. \<open>audio.title\<close> is the field \<open>audio_title\<close> here, the other fields keep their
  names.
\<close>

record metadata_obj =
  duration :: jsval
  videoSize :: jsval
  audioSize :: jsval
  resolution :: jsval
  format :: jsval
  codec :: jsval
  fps :: jsval
  bitrate :: jsval
  width :: jsval
  height :: jsval
  audioCodec :: jsval
  audioChannels :: jsval
  audioSampleRate :: jsval

record creator_obj =
  username :: jsval
  nickname :: jsval
  avatar :: jsval
  verified :: jsval

record stats_obj =
  views :: jsval
  likes :: jsval
  comments :: jsval
  shares :: jsval
  favorites :: jsval

record audio_obj =
  audio_title :: jsval
  author :: jsval

record response_doc =
  videoUrl :: jsval
  audioUrl :: jsval
  thumbnail :: jsval
  title :: jsval
  description :: jsval
  metadata :: metadata_obj
  creator :: creator_obj
  stats :: stats_obj
  audio :: audio_obj
  hashtags :: jsval
  uploadDate :: jsval
  videoId :: jsval

text \<open>\<open>videoInfo.ext?.toUpperCase()\<close>: only a string has the method.\<close>

fun ext_upper :: "platform \<Rightarrow> jsval \<Rightarrow> js_error + jsval" where
  "ext_upper p JUndefined = Inr JUndefined"
| "ext_upper p JNull = Inr JUndefined"
| "ext_upper p (JStr s) = Inr (JStr (toUpperCase p s))"
| "ext_upper p v = Inl TypeError"

definition metadata_of :: "platform \<Rightarrow> jsval \<Rightarrow> jsval \<Rightarrow> metadata_obj" where
  "metadata_of p videoInfo upper =
     \<lparr> duration = JStr (formatDuration p (get_prop videoInfo (lit ''duration''))),
       videoSize = JStr (formatFileSize p
         (jor (get_prop videoInfo (lit ''filesize'')) (get_prop videoInfo (lit ''filesize_approx'')))),
       audioSize = JStr (formatFileSize p
         (jor (get_prop videoInfo (lit ''audio_filesize''))
              (JNum (js_mul (to_number p (get_prop videoInfo (lit ''filesize_approx'')))
                            (literal (1 / 10)))))),
       resolution = JStr
         (to_string p (jor (get_prop videoInfo (lit ''width'')) (JNum (Fin 1080))) @ lit ''x'' @
          to_string p (jor (get_prop videoInfo (lit ''height'')) (JNum (Fin 1920)))),
       format = jor upper (JStr (lit ''MP4'')),
       codec = jor (get_prop videoInfo (lit ''vcodec'')) (JStr (lit ''H.264'')),
       fps = jor (get_prop videoInfo (lit ''fps'')) (JNum (Fin 30)),
       bitrate =
         (if truthy (get_prop videoInfo (lit ''tbr''))
          then JStr (num_to_string p (js_round (to_number p (get_prop videoInfo (lit ''tbr''))))
                     @ lit '' kbps'')
          else JStr (lit ''N/A'')),
       width = jor (get_prop videoInfo (lit ''width'')) (JNum (Fin 1080)),
       height = jor (get_prop videoInfo (lit ''height'')) (JNum (Fin 1920)),
       audioCodec = jor (get_prop videoInfo (lit ''acodec'')) (JStr (lit ''AAC'')),
       audioChannels = jor (get_prop videoInfo (lit ''audio_channels'')) (JNum (Fin 2)),
       audioSampleRate =
         (if truthy (get_prop videoInfo (lit ''asr''))
          then JStr (toFixed p 1 (js_div (to_number p (get_prop videoInfo (lit ''asr''))) 1000)
                     @ lit '' kHz'')
          else JStr (lit ''44.1 kHz'')) \<rparr>"

definition creator_of :: "jsval \<Rightarrow> creator_obj" where
  "creator_of videoInfo =
     \<lparr> username = jor (jor (get_prop videoInfo (lit ''uploader_id''))
                          (get_prop videoInfo (lit ''uploader''))) (JStr (lit ''Unknown'')),
       nickname = jor (jor (get_prop videoInfo (lit ''uploader''))
                          (get_prop videoInfo (lit ''creator''))) (JStr (lit ''TikTok User'')),
       avatar = jor (get_prop videoInfo (lit ''uploader_url''))
                    (get_prop videoInfo (lit ''channel_url'')),
       verified = jor (get_prop videoInfo (lit ''uploader_verified'')) (JBool False) \<rparr>"

definition stats_of :: "jsval \<Rightarrow> stats_obj" where
  "stats_of videoInfo =
     \<lparr> views = jor (get_prop videoInfo (lit ''view_count'')) (JNum (Fin 0)),
       likes = jor (get_prop videoInfo (lit ''like_count'')) (JNum (Fin 0)),
       comments = jor (get_prop videoInfo (lit ''comment_count'')) (JNum (Fin 0)),
       shares = jor (get_prop videoInfo (lit ''repost_count'')) (JNum (Fin 0)),
       favorites = jor (get_prop videoInfo (lit ''bookmark_count'')) (JNum (Fin 0)) \<rparr>"

definition audio_of :: "jsval \<Rightarrow> audio_obj" where
  "audio_of videoInfo =
     \<lparr> audio_title = jor (jor (get_prop videoInfo (lit ''track''))
                             (get_prop videoInfo (lit ''alt_title''))) (JStr (lit ''Original Sound'')),
       author = jor (jor (get_prop videoInfo (lit ''artist''))
                        (get_prop videoInfo (lit ''uploader''))) (JStr (lit ''Unknown Artist'')) \<rparr>"

text \<open>
  The fields are evaluated in the order of the literal; the first exception ends the
  evaluation. \<open>videoInfo\<close> is not \<open>null\<close> here: line 27 has read \<open>videoInfo.title\<close>.
  \<open>formatNumber\<close> (lines 42 to 45) is defined in the handler and never called: the
  counters of \<open>stats\<close> are numbers, not formatted strings.
\<close>

definition responseData :: "platform \<Rightarrow> jsstring \<Rightarrow> jsval \<Rightarrow> js_error + response_doc" where
  "responseData p url videoInfo =
     (case encodeURIComponent p url of
        None \<Rightarrow> Inl URIError
      | Some enc \<Rightarrow>
     (case ext_upper p (get_prop videoInfo (lit ''ext'')) of
        Inl e \<Rightarrow> Inl e
      | Inr upper \<Rightarrow>
     (case extractHashtags (jor (jor (get_prop videoInfo (lit ''description''))
                                     (get_prop videoInfo (lit ''title''))) (JStr [])) of
        Inl e \<Rightarrow> Inl e
      | Inr tags \<Rightarrow>
     (case formatDate p (get_prop videoInfo (lit ''upload_date''))
                        (get_prop videoInfo (lit ''timestamp'')) of
        Inl e \<Rightarrow> Inl e
      | Inr date \<Rightarrow>
          Inr \<lparr> videoUrl = JStr (lit ''/api/tiktok/download/video?url='' @ enc),
                audioUrl = JStr (lit ''/api/tiktok/download/audio?url='' @ enc),
                thumbnail = jor (get_prop videoInfo (lit ''thumbnail''))
                                (JStr (lit ''https://picsum.photos/seed/tiktok/1280/720'')),
                title = jor (jor (get_prop videoInfo (lit ''title''))
                                 (get_prop videoInfo (lit ''description''))) (JStr (lit ''TikTok Video'')),
                description = jor (jor (get_prop videoInfo (lit ''description''))
                                       (get_prop videoInfo (lit ''title'')))
                                  (JStr (lit ''No description available'')),
                metadata = metadata_of p videoInfo upper,
                creator = creator_of videoInfo,
                stats = stats_of videoInfo,
                audio = audio_of videoInfo,
                hashtags = JArr (map JStr tags),
                uploadDate = JStr date,
                videoId = jor (jor (get_prop videoInfo (lit ''id''))
                                   (get_prop videoInfo (lit ''display_id''))) (JStr (lit ''unknown'')) \<rparr>))))"

section \<open>The two request handlers\<close>

text \<open>
  A response as the handler leaves it: the status, the headers the handler itself has set
  with \<open>res.setHeader\<close>, and the body: \<open>res.json\<close> of a \<open>message\<close> object or of the
  response document, or the read stream of a file piped into the response.
\<close>

datatype http_body = Message jsstring | Document response_doc | FileStream jsstring

record http_response =
  status :: nat
  headers :: "(jsstring \<times> jsstring) list"
  body :: http_body

definition json_message :: "nat \<Rightarrow> (jsstring \<times> jsstring) list \<Rightarrow> string \<Rightarrow> http_response" where
  "json_message code hs m = \<lparr> status = code, headers = hs, body = Message (lit m) \<rparr>"

definition dquote :: code_unit where
  "dquote = 0x22"

subsection \<open>POST /api/tiktok/info (lines 18 to 157)\<close>

text \<open>
  What the handler calls outside this file:
  \<^item> \<open>schema_parse\<close>: \<open>tiktokInfoSchema.parse\<close>, the zod object schema around
    \<open>validateTikTokUrl\<close> of client/src/lib/validators. It returns the validated \<open>url\<close>
    or throws a \<open>ZodError\<close>, of which the handler reads the messages of \<open>errors\<close>;
  \<^item> \<open>execPromise\<close>: runs a shell command; the standard output, or \<open>None\<close> when the
    promise is rejected;
  \<^item> \<open>JSON_parse\<close>: \<open>None\<close> when it throws \<open>SyntaxError\<close>.
  The handler returns the response it sends, if it sends one, and the commands it has run.
\<close>

record collaborators =
  schema_parse :: "jsval \<Rightarrow> jsstring list + jsstring"
  execPromise :: "jsstring \<Rightarrow> jsstring option"
  JSON_parse :: "jsstring \<Rightarrow> jsval option"

definition failed_to_process :: "jsstring list \<Rightarrow> http_response option \<times> jsstring list" where
  "failed_to_process cmds = (Some (json_message 500 [] ''Failed to process TikTok URL''), cmds)"

definition tiktok_info ::
  "platform \<Rightarrow> collaborators \<Rightarrow> jsval \<Rightarrow> http_response option \<times> jsstring list" where
  "tiktok_info p w req_body =
     (case schema_parse w req_body of
        Inl errors \<Rightarrow>
          (case errors of
             [] \<Rightarrow> (None, [])
           | m # ms \<Rightarrow> (Some \<lparr> status = 400, headers = [], body = Message m \<rparr>, []))
      | Inr url \<Rightarrow>
          (let cmd = lit ''yt-dlp --dump-json '' @ [dquote] @ url @ [dquote]
           in case execPromise w cmd of
                None \<Rightarrow> failed_to_process [cmd]
              | Some stdout \<Rightarrow>
                  (case JSON_parse w stdout of
                     None \<Rightarrow> failed_to_process [cmd]
                   | Some videoInfo \<Rightarrow>
                       if videoInfo = JNull \<or> videoInfo = JUndefined then failed_to_process [cmd]
                       else (case responseData p url videoInfo of
                               Inl e \<Rightarrow> failed_to_process [cmd]
                             | Inr doc \<Rightarrow>
                                 (Some \<lparr> status = 200, headers = [], body = Document doc \<rparr>,
                                  [cmd])))))"

subsection \<open>GET /api/tiktok/download/:type (lines 159 to 206)\<close>

text \<open>
  The child process as the handler observes it: \<open>spawn\<close> throws on an argument vector it
  refuses; the child emits \<open>error\<close>, for which the handler has no listener, so that no
  response is sent; or the child emits \<open>close\<close> with its exit code, \<open>null\<close> when a signal
  ended it.
\<close>

datatype child_outcome = SpawnThrows | ErrorEvent | Closed "int option"

text \<open>
  The host of the download handler: \<open>path.join\<close>, \<open>process.cwd()\<close>, whether \<open>mkdir\<close>
  of a path resolves, \<open>Date.now()\<close> (a whole number of milliseconds below \<open>2 ^ 53\<close>,
  which a template literal prints with its exact digits), the outcome of a spawned
  command, and whether \<open>res.setHeader\<close> accepts a header (it throws on a value with a
  character that no header may carry).
\<close>

record host =
  path_join :: "jsstring \<Rightarrow> jsstring \<Rightarrow> jsstring"
  cwd :: jsstring
  mkdir :: "jsstring \<Rightarrow> bool"
  now :: nat
  spawn :: "jsstring \<Rightarrow> jsstring list \<Rightarrow> child_outcome"
  setHeader_ok :: "jsstring \<Rightarrow> jsstring \<Rightarrow> bool"

type_synonym invocation = "jsstring \<times> jsstring list"

definition failed_to_download ::
  "(jsstring \<times> jsstring) list \<Rightarrow> invocation list \<Rightarrow> http_response option \<times> invocation list" where
  "failed_to_download hs calls = (Some (json_message 500 hs ''Failed to download content''), calls)"

definition extension_of :: "jsstring \<Rightarrow> jsstring" where
  "extension_of type = (if type = lit ''video'' then lit ''mp4'' else lit ''mp3'')"

definition options_of :: "jsstring \<Rightarrow> jsstring list" where
  "options_of type =
     (if type = lit ''video''
      then [lit ''--format'', lit ''best[ext=mp4]'', lit ''--force-overwrites'']
      else [lit ''--extract-audio'', lit ''--audio-format'', lit ''mp3'', lit ''--force-overwrites''])"

definition content_type_of :: "jsstring \<Rightarrow> jsstring" where
  "content_type_of type = (if type = lit ''video'' then lit ''video/mp4'' else lit ''audio/mpeg'')"

definition file_name :: "jsstring \<Rightarrow> nat \<Rightarrow> jsstring \<Rightarrow> jsstring" where
  "file_name type timestamp ext =
     lit ''tiktok-'' @ type @ lit ''-'' @ digits timestamp @ lit ''.'' @ ext"

text \<open>
  The \<open>const\<close>s of the handler: \<open>tempPath\<close> (line 168), \<open>outputFile\<close> (line 172), the
  argument vector of \<open>spawn\<close> (lines 178 to 182) and the two headers (lines 196, 197).
\<close>

definition tempPath :: "host \<Rightarrow> jsstring" where
  "tempPath h = path_join h (cwd h) (lit ''temp'')"

definition outputFile :: "host \<Rightarrow> jsstring \<Rightarrow> jsstring" where
  "outputFile h type = path_join h (tempPath h) (file_name type (now h) (extension_of type))"

definition spawn_args :: "host \<Rightarrow> jsstring \<Rightarrow> jsstring \<Rightarrow> jsstring list" where
  "spawn_args h type u = options_of type @ [lit ''-o'', outputFile h type, u]"

definition content_type_header :: "jsstring \<Rightarrow> jsstring \<times> jsstring" where
  "content_type_header type = (lit ''Content-Type'', content_type_of type)"

definition content_disposition_header :: "host \<Rightarrow> jsstring \<Rightarrow> jsstring \<times> jsstring" where
  "content_disposition_header h type =
     (lit ''Content-Disposition'',
      lit ''attachment; filename='' @ [dquote] @ file_name type (now h) (extension_of type)
        @ [dquote])"

definition tiktok_download ::
  "host \<Rightarrow> jsstring \<Rightarrow> jsstring option \<Rightarrow> http_response option \<times> invocation list" where
  "tiktok_download h type url =
     (case url of
        None \<Rightarrow> (Some (json_message 400 [] ''URL is required''), [])
      | Some u \<Rightarrow>
          if u = [] then (Some (json_message 400 [] ''URL is required''), [])
          else if \<not> mkdir h (tempPath h) then failed_to_download [] []
          else
            (let call = (lit ''yt-dlp'', spawn_args h type u)
             in case spawn h (lit ''yt-dlp'') (spawn_args h type u) of
                  SpawnThrows \<Rightarrow> failed_to_download [] []
                | ErrorEvent \<Rightarrow> (None, [call])
                | Closed code \<Rightarrow>
                    if code \<noteq> Some 0 then failed_to_download [] [call]
                    else
                      (let h1 = content_type_header type;
                           h2 = content_disposition_header h type
                       in if \<not> setHeader_ok h (fst h1) (snd h1)
                          then failed_to_download [] [call]
                          else if \<not> setHeader_ok h (fst h2) (snd h2)
                          then failed_to_download [h1] [call]
                          else (Some \<lparr> status = 200, headers = [h1, h2],
                                       body = FileStream (outputFile h type) \<rparr>, [call]))))"

section \<open>A host for concrete evaluations\<close>

text \<open>
  A download host whose extractor succeeds on one URL and exits with code 1 on every
  other; \<open>res.setHeader\<close> accepts the values Node accepts (tab, U+0020 to U+007E, U+0080
  to U+00FF).
\<close>

definition sample_host :: host where
  "sample_host =
     \<lparr> path_join = (\<lambda>a b. a @ lit ''/'' @ b),
       cwd = lit ''/srv/app'',
       mkdir = (\<lambda>d. True),
       now = 1700000000000,
       spawn = (\<lambda>cmd args. if last args = lit ''https://www.tiktok.com/@a/video/1''
                              then Closed (Some 0) else Closed (Some 1)),
       setHeader_ok = (\<lambda>name v.
         list_all (\<lambda>c. c = 9 \<or> (0x20 \<le> c \<and> c \<le> 0x7E) \<or> (0x80 \<le> c \<and> c \<le> 0xFF)) v) \<rparr>"

text \<open>
  A platform: Node on a host whose time zone is UTC.
  \<^item> \<open>encodeURIComponent\<close> keeps the unreserved characters and writes every other code
    point as the percent-escaped bytes of its UTF-8 encoding; a lone surrogate throws.
  \<^item> \<open>DateParse\<close> reads the only shape \<open>formatDate\<close> builds, \<open>YYYY-MM-DD\<close>, as midnight
    UTC of that day. V8 accepts a month from 1 to 12 and a day from 1 to 31 (a day beyond
    the end of the month runs into the next month) and rejects everything else.
  \<^item> \<open>LocalTZA\<close> is 0 at every time.
  \<^item> \<open>toUpperCase\<close> maps the ASCII letters and \<open>StringToNumber\<close> reads strings of ASCII
    digits; \<open>NumberToString\<close> and \<open>EraDateString\<close> are left trivial. The evaluations
    below reach none of the four outside these inputs.
\<close>

definition hex_digit :: "nat \<Rightarrow> code_unit" where
  "hex_digit n = (if n < 10 then of_nat (48 + n) else of_nat (55 + n))"

definition percent :: "nat \<Rightarrow> jsstring" where
  "percent b = [0x25, hex_digit (b div 16), hex_digit (b mod 16)]"

definition unreserved :: "code_unit \<Rightarrow> bool" where
  "unreserved c =
     ((0x41 \<le> c \<and> c \<le> 0x5A) \<or> (0x61 \<le> c \<and> c \<le> 0x7A) \<or> (0x30 \<le> c \<and> c \<le> 0x39)
      \<or> c \<in> set (lit ''-_.!~*()'') \<or> c = 0x27)"

definition utf8 :: "nat \<Rightarrow> jsstring" where
  "utf8 cp =
     (if cp < 0x80 then percent cp
      else if cp < 0x800 then percent (0xC0 + cp div 0x40) @ percent (0x80 + cp mod 0x40)
      else if cp < 0x10000
      then percent (0xE0 + cp div 0x1000) @ percent (0x80 + cp div 0x40 mod 0x40)
           @ percent (0x80 + cp mod 0x40)
      else percent (0xF0 + cp div 0x40000) @ percent (0x80 + cp div 0x1000 mod 0x40)
           @ percent (0x80 + cp div 0x40 mod 0x40) @ percent (0x80 + cp mod 0x40))"

fun encode_uri_component :: "jsstring \<Rightarrow> jsstring option" where
  "encode_uri_component [] = Some []"
| "encode_uri_component [c] =
     (if unreserved c then Some [c]
      else if 0xD800 \<le> c \<and> c \<le> 0xDFFF then None
      else Some (utf8 (unat c)))"
| "encode_uri_component (c # d # cs) =
     (if unreserved c then map_option ((#) c) (encode_uri_component (d # cs))
      else if 0xD800 \<le> c \<and> c \<le> 0xDBFF
      then (if 0xDC00 \<le> d \<and> d \<le> 0xDFFF
            then map_option
                   ((@) (utf8 (0x10000 + (unat c - 0xD800) * 0x400 + (unat d - 0xDC00))))
                   (encode_uri_component cs)
            else None)
      else if 0xDC00 \<le> c \<and> c \<le> 0xDFFF then None
      else map_option ((@) (utf8 (unat c))) (encode_uri_component (d # cs)))"

definition digit_value :: "code_unit \<Rightarrow> nat" where
  "digit_value c = unat c - 48"

definition number_of_digits :: "jsstring \<Rightarrow> nat" where
  "number_of_digits s = foldl (\<lambda>n c. 10 * n + digit_value c) 0 s"

definition days_from_civil :: "int \<Rightarrow> int \<Rightarrow> int \<Rightarrow> int" where
  "days_from_civil y m d =
     (let y1 = (if m \<le> 2 then y - 1 else y);
          era = y1 div 400;
          yoe = y1 - era * 400;
          doy = (153 * (if 2 < m then m - 3 else m + 9) + 2) div 5 + d - 1;
          doe = yoe * 365 + yoe div 4 - yoe div 100 + doy
      in era * 146097 + doe - 719468)"

definition iso_date_parse :: "jsstring \<Rightarrow> jsnum" where
  "iso_date_parse s =
     (if length s = 10 \<and> list_all is_digit (take 4 s) \<and> s ! 4 = 0x2D
         \<and> list_all is_digit (take 2 (drop 5 s)) \<and> s ! 7 = 0x2D \<and> list_all is_digit (drop 8 s)
      then (let y = int (number_of_digits (take 4 s));
                m = int (number_of_digits (take 2 (drop 5 s)));
                d = int (number_of_digits (drop 8 s))
            in if 1 \<le> m \<and> m \<le> 12 \<and> 1 \<le> d \<and> d \<le> 31
               then Fin (of_int (days_from_civil y m d * 86400000))
               else NaN)
      else NaN)"

definition ascii_upper :: "jsstring \<Rightarrow> jsstring" where
  "ascii_upper s = map (\<lambda>c. if 0x61 \<le> c \<and> c \<le> 0x7A then c - 0x20 else c) s"

definition sample_platform :: platform where
  "sample_platform =
     \<lparr> StringToNumber = (\<lambda>s. if list_all is_digit s then rnd64 (of_nat (number_of_digits s))
                              else NaN),
       NumberToString = (\<lambda>q. []),
       toUpperCase = ascii_upper,
       encodeURIComponent = encode_uri_component,
       DateParse = iso_date_parse,
       LocalTZA = (\<lambda>t. 0),
       EraDateString = (\<lambda>t. []) \<rparr>"

text \<open>The same host with its clock eight hours behind UTC.\<close>

definition west_platform :: platform where
  "west_platform = sample_platform \<lparr> LocalTZA := (\<lambda>t. - 28800000) \<rparr>"

text \<open>
  Collaborators of the metadata handler: a schema that accepts an object whose \<open>url\<close> is a
  string starting with \<open>https://www.tiktok.com/\<close>, and an extractor that prints a document
  the JSON parser reads as \<open>sample_info\<close>.
\<close>

definition sample_info :: jsval where
  "sample_info =
     JObj [(lit ''id'', JStr (lit ''7300000000000000001'')),
           (lit ''title'', JStr (lit ''Check this #fun #2024tok out'')),
           (lit ''uploader'', JStr (lit ''a'')),
           (lit ''duration'', JNum (Fin 75)),
           (lit ''width'', JNum (Fin 576)),
           (lit ''height'', JNum (Fin 1024)),
           (lit ''ext'', JStr (lit ''mp4'')),
           (lit ''filesize'', JNum (Fin 5242880)),
           (lit ''view_count'', JNum (Fin 1200)),
           (lit ''like_count'', JNum (Fin 0)),
           (lit ''comment_count'', JNull),
           (lit ''upload_date'', JStr (lit ''20240115'')),
           (lit ''timestamp'', JNum (Fin 1700000000))]"

definition sample_collaborators :: collaborators where
  "sample_collaborators =
     \<lparr> schema_parse = (\<lambda>b. case get_prop b (lit ''url'') of
                              JStr s \<Rightarrow> if take 23 s = lit ''https://www.tiktok.com/'' then Inr s
                                        else Inl [lit ''Please enter a valid TikTok URL'']
                            | JUndefined \<Rightarrow> Inl [lit ''Required'']
                            | _ \<Rightarrow> Inl [lit ''Expected string'']),
       execPromise = (\<lambda>cmd. Some (lit ''{}'')),
       JSON_parse = (\<lambda>s. Some sample_info) \<rparr>"

text \<open>The fields of the document other than \<open>creator.avatar\<close>.\<close>

definition fields_but_avatar :: "response_doc \<Rightarrow> jsval list" where
  "fields_but_avatar d =
     [videoUrl d, audioUrl d, thumbnail d, title d, description d,
      duration (metadata d), videoSize (metadata d), audioSize (metadata d),
      resolution (metadata d), format (metadata d), codec (metadata d), fps (metadata d),
      bitrate (metadata d), width (metadata d), height (metadata d), audioCodec (metadata d),
      audioChannels (metadata d), audioSampleRate (metadata d),
      username (creator d), nickname (creator d), verified (creator d),
      views (stats d), likes (stats d), comments (stats d), shares (stats d),
      favorites (stats d),
      audio_title (audio d), author (audio d),
      hashtags d, uploadDate d, videoId d]"

section \<open>The hashtags in the words of the specification\<close>

text \<open>
  The specification describes the hashtags as every maximal match of \<open>#\<close> followed by one
  or more class characters, in the order of the text, duplicates kept, without the \<open>#\<close>.
  \<open>tag_at s\<close> is the tag that starts at the head of \<open>s\<close>, if one does: the head is \<open>#\<close>
  and the run of class characters after it, taken as far as it goes, is not empty.
  \<open>maximal_tags\<close> collects the tags of all positions from left to right.
\<close>

definition tag_at :: "jsstring \<Rightarrow> jsstring list" where
  "tag_at s =
     (case s of
        [] \<Rightarrow> []
      | c # cs \<Rightarrow> if c = hash_sign \<and> takeWhile tag_char cs \<noteq> [] then [takeWhile tag_char cs]
                  else [])"

definition maximal_tags :: "jsstring \<Rightarrow> jsstring list" where
  "maximal_tags s = concat (map (\<lambda>i. tag_at (drop i s)) [0..<length s])"

section \<open>Further notions of the specification\<close>

text \<open>
  \<open>res.json\<close> writes the document with \<open>JSON.stringify\<close>: a property whose value is
  \<open>undefined\<close> is left out of the body, and \<open>null\<close>, \<open>NaN\<close> and the two infinities
  are written as \<open>null\<close>. \<open>null_in_body\<close> holds of the values that reach the client
  as \<open>null\<close> or not at all.
\<close>

definition null_in_body :: "jsval \<Rightarrow> bool" where
  "null_in_body x =
     (x = JUndefined \<or> x = JNull \<or> x = JNum NaN \<or> x = JNum PosInf \<or> x = JNum NegInf)"

text \<open>
  The numeral of \<open>y\<close> with exactly two decimal places: \<open>y\<close> rounded to the nearest
  hundredth (away from zero on a tie), the integer part, a point and two digits.
\<close>

definition hundredths :: "rat \<Rightarrow> nat" where
  "hundredths y = nat \<lfloor>\<bar>y\<bar> * 100 + 1 / 2\<rfloor>"

definition two_decimals :: "rat \<Rightarrow> jsstring" where
  "two_decimals y =
     (if y < 0 then lit ''-'' else []) @ digits (hundredths y div 100) @ lit ''.'' @
     [digit (hundredths y div 10 mod 10), digit (hundredths y mod 10)]"




section \<open>Auxiliary facts\<close>

subsection \<open>Literals and digits\<close>

lemma lit_append: "lit a @ lit b = lit (a @ b)"
  by (simp add: lit_def)

lemma digits_nonempty: "digits n \<noteq> []"
  by (subst digits.simps) simp

lemma digits_sample_now: "digits 1700000000000 = lit ''1700000000000''"
  by (simp add: digits.simps digit_def lit_def)

lemma digits_1080: "digits 1080 = lit ''1080''"
  by (simp add: digits.simps digit_def lit_def)

lemma digits_1920: "digits 1920 = lit ''1920''"
  by (simp add: digits.simps digit_def lit_def)

lemma digits_720: "digits 720 = lit ''720''"
  by (simp add: digits.simps digit_def lit_def)

lemma digits_576: "digits 576 = lit ''576''"
  by (simp add: digits.simps digit_def lit_def)

lemma digits_1024: "digits 1024 = lit ''1024''"
  by (simp add: digits.simps digit_def lit_def)

lemma digits_10: "digits 10 = lit ''10''"
  by (simp add: digits.simps digit_def lit_def)

lemma digits_1: "digits (Suc 0) = lit ''1''"
  by (simp add: digits.simps digit_def lit_def)

subsection \<open>Truthiness and fallback chains\<close>

lemma truthy_defined: "truthy a \<Longrightarrow> a \<noteq> JUndefined \<and> a \<noteq> JNull"
  by (cases a) auto

lemma jor_defined:
  "b \<noteq> JUndefined \<Longrightarrow> b \<noteq> JNull \<Longrightarrow> jor a b \<noteq> JUndefined \<and> jor a b \<noteq> JNull"
  using truthy_defined by (auto simp: jor_def)

lemma truthy_not_NaN: "truthy a \<Longrightarrow> a \<noteq> JNum NaN"
  by (cases a) auto

lemma jor_not_NaN: "b \<noteq> JNum NaN \<Longrightarrow> jor a b \<noteq> JNum NaN"
  using truthy_not_NaN by (auto simp: jor_def)

lemma avatar_absent_iff:
  "jor a b \<in> {JUndefined, JNull} \<longleftrightarrow> \<not> truthy a \<and> b \<in> {JUndefined, JNull}"
  using truthy_defined [of a] by (auto simp: jor_def)

lemma text_source_description: "d \<noteq> [] \<Longrightarrow> jor (jor (JStr d) b) (JStr []) = JStr d"
  by (simp add: jor_def)

lemma text_source_title: "\<not> truthy a \<Longrightarrow> jor (jor a (JStr t)) (JStr []) = JStr t"
  by (cases "t = []") (simp_all add: jor_def)

lemma text_source_none: "\<not> truthy a \<Longrightarrow> \<not> truthy b \<Longrightarrow> jor (jor a b) (JStr []) = JStr []"
  by (simp add: jor_def)

lemma text_source_is_string:
  assumes "a \<in> {JUndefined, JNull} \<union> range JStr" and "b \<in> {JUndefined, JNull} \<union> range JStr"
  shows "\<exists>s. jor (jor a b) (JStr []) = JStr s"
  using assms by (auto simp: jor_def)

subsection \<open>Rounding is exact on doubles\<close>

lemma floor_log2_le:
  assumes "0 < a"
  shows "2 powi (floor_log2 a) \<le> a"
proof -
  obtain p q where pq: "quotient_of a = (p, q)"
    by (cases "quotient_of a")
  then have q: "0 < q"
    by (rule quotient_of_denom_pos)
  have a: "a = of_int p / of_int q"
    by (rule quotient_of_div [OF pq])
  with assms q have p: "0 < p"
    by (simp add: zero_less_divide_iff)
  have bp: "2 ^ nat (bitlen p - 1) \<le> p"
    using bitlen_bounds [OF p] ..
  have bq: "q < 2 ^ nat (bitlen q)"
    using bitlen_bounds [OF q] ..
  have p1: "1 \<le> bitlen p"
    using p bitlen_eq_zero_iff [of p] bitlen_nonneg [of p] by linarith
  have "(2::rat) powi (bitlen p - 1) = of_int (2 ^ nat (bitlen p - 1))"
    using p1 by (simp add: power_int_nonneg_exp)
  also have "\<dots> \<le> of_int p"
    using bp by (simp only: of_int_le_iff)
  finally have 1: "(2::rat) powi (bitlen p - 1) \<le> of_int p" .
  have "of_int q \<le> (of_int (2 ^ nat (bitlen q)) :: rat)"
    using bq by (simp only: of_int_le_iff)
  also have "\<dots> = 2 powi (bitlen q)"
    using bitlen_nonneg [of q] by (simp add: power_int_nonneg_exp)
  finally have 2: "of_int q \<le> (2::rat) powi (bitlen q)" .
  have "(2::rat) powi (bitlen p - bitlen q - 1) = 2 powi (bitlen p - 1) / 2 powi (bitlen q)"
  proof -
    have "bitlen p - bitlen q - 1 = (bitlen p - 1) - bitlen q"
      by simp
    then show ?thesis
      by (simp only:) (rule power_int_diff, simp)
  qed
  also have "\<dots> \<le> of_int p / of_int q"
    using 1 2 q p by (intro frac_le) simp_all
  finally have low: "(2::rat) powi (bitlen p - bitlen q - 1) \<le> a"
    by (simp add: a)
  show ?thesis
    using low by (simp add: floor_log2_def pq Let_def)
qed

lemma round_half_even_int: "round_half_even (of_int z) = z"
  by (simp add: round_half_even_def Let_def)

lemma rnd64_exact:
  assumes m: "0 < m" "m < 2 ^ 53" and e: "- 1074 \<le> e"
    and top: "of_int m * 2 powi e < (2::rat) powi 1024"
  shows "rnd64 (of_int m * 2 powi e) = Fin (of_int m * 2 powi e)"
proof -
  let ?a = "of_int m * (2::rat) powi e"
  have pos: "0 < ?a"
    using m by simp
  have "2 powi (floor_log2 ?a) \<le> ?a"
    by (rule floor_log2_le [OF pos])
  also have "?a < 2 ^ 53 * 2 powi e"
  proof -
    have "(of_int m :: rat) < of_int (2 ^ 53)"
      using m by (simp only: of_int_less_iff)
    then show ?thesis by simp
  qed
  also have "\<dots> = 2 powi (53 + e)"
    by (simp add: power_int_add)
  finally have lt: "2 powi (floor_log2 ?a) < (2::rat) powi (53 + e)" .
  have "floor_log2 ?a < 53 + e"
  proof (rule ccontr)
    assume "\<not> floor_log2 ?a < 53 + e"
    then have "53 + e \<le> floor_log2 ?a"
      by simp
    then have "(2::rat) powi (53 + e) \<le> 2 powi (floor_log2 ?a)"
      by (intro power_int_increasing) simp_all
    with lt show False
      by simp
  qed
  then have le: "max (floor_log2 ?a - 52) (- 1074) \<le> e"
    using e by simp
  define e' where "e' = max (floor_log2 ?a - 52) (- 1074)"
  have "?a / 2 powi e' = of_int m * 2 powi (e - e')"
    by (simp add: power_int_diff)
  also have "\<dots> = of_int (m * 2 ^ nat (e - e'))"
    using le by (simp add: e'_def power_int_nonneg_exp)
  finally have q: "?a / 2 powi e' = of_int (m * 2 ^ nat (e - e'))" .
  have v: "of_int (round_half_even (?a / 2 powi e')) * 2 powi e' = ?a"
    unfolding q round_half_even_int unfolding q [symmetric] by simp
  have ne: "(?a = 0) = False"
    using m by simp
  have abs: "\<bar>?a\<bar> = ?a"
    using pos by simp
  have sg: "sgn ?a = 1"
    using pos by (simp only: sgn_1_pos)
  have nt: "(2 powi 1024 \<le> ?a) = False"
    using top by simp
  show ?thesis
    by (simp only: rnd64_def Let_def ne abs if_False e'_def [symmetric] v nt sg mult_1)
qed

lemma rnd64_scaled_nat:
  assumes "0 < n" and "n < 2 ^ 53" and "- 1074 \<le> e" and "e \<le> 0"
  shows "rnd64 (of_nat n * 2 powi e) = Fin (of_nat n * 2 powi e)"
proof -
  have m: "0 < int n" "int n < 2 ^ 53"
    using assms(1,2) by simp_all
  have "(of_int (int n) :: rat) < of_int (2 ^ 53)"
    using m(2) by (simp only: of_int_less_iff)
  then have lt: "(of_int (int n) :: rat) < 2 powi 1024"
    by simp
  have "(2::rat) powi e \<le> 2 powi 0"
    using assms(4) by (intro power_int_increasing) simp_all
  then have "(2::rat) powi e \<le> 1"
    by simp
  then have "of_int (int n) * 2 powi e \<le> (of_int (int n) :: rat) * 1"
    by (intro mult_left_mono) simp_all
  with lt have "of_int (int n) * 2 powi e < (2::rat) powi 1024"
    by simp
  from rnd64_exact [OF m assms(3) this] show ?thesis
    by simp
qed

lemma div_1024_twice:
  assumes "0 < n" and "n < 2 ^ 53"
  shows "js_div (js_div (Fin (of_nat n)) 1024) 1024 = Fin (of_nat n / 1048576)"
proof -
  have a: "(of_nat n :: rat) / 1024 = of_nat n * 2 powi (- 10)"
    by (simp add: power_int_minus_divide)
  have b: "(of_nat n :: rat) / 1024 / 1024 = of_nat n * 2 powi (- 20)"
    by (simp add: power_int_minus_divide)
  have c: "of_nat n * 2 powi (- 20) = (of_nat n :: rat) / 1048576"
    by (simp add: power_int_minus_divide)
  have "js_div (Fin (of_nat n)) 1024 = rnd64 (of_nat n * 2 powi (- 10))"
    by (simp only: js_div.simps a)
  also have "\<dots> = Fin (of_nat n * 2 powi (- 10))"
    by (rule rnd64_scaled_nat [OF assms]) simp_all
  finally have 1: "js_div (Fin (of_nat n)) 1024 = Fin (of_nat n / 1024)"
    by (simp only: a)
  have "js_div (Fin (of_nat n / 1024)) 1024 = rnd64 (of_nat n * 2 powi (- 20))"
    by (simp only: js_div.simps b)
  also have "\<dots> = Fin (of_nat n * 2 powi (- 20))"
    by (rule rnd64_scaled_nat [OF assms]) simp_all
  finally have 2: "js_div (Fin (of_nat n / 1024)) 1024 = Fin (of_nat n / 1048576)"
    by (simp only: c)
  show ?thesis
    by (simp only: 1 2)
qed

lemma trunc_of_nat: "trunc (of_nat k) = int k"
  by (simp add: trunc_def)

lemma timestamp_millis:
  assumes "0 < n" and "n \<le> 8640000000000"
  shows "time_clip (js_mul (Fin (of_nat n)) 1000) = Fin (of_nat n * 1000)"
proof -
  have pos: "0 < n * 1000"
    using assms(1) by simp
  have "n * 1000 < 2 ^ 53"
    using assms(2) by simp
  from rnd64_scaled_nat [OF pos this, of 0]
  have r: "js_mul (Fin (of_nat n)) 1000 = Fin (of_nat (n * 1000))"
    by simp
  have "(of_nat (n * 1000) :: rat) \<le> of_nat 8640000000000000"
    using assms(2) by (simp only: of_nat_le_iff)
  then have le: "(of_nat (n * 1000) :: rat) \<le> 8640000000000000"
    by simp
  have ab: "\<bar>of_nat (n * 1000) :: rat\<bar> = of_nat (n * 1000)"
    by (rule abs_of_nat)
  have nl: "(8640000000000000 < (of_nat (n * 1000) :: rat)) = False"
    using le by (simp only: not_less [symmetric])
  have tr: "trunc (of_nat (n * 1000)) = int (n * 1000)"
    by (rule trunc_of_nat)
  have "time_clip (Fin (of_nat (n * 1000))) = Fin (of_nat (n * 1000))"
    by (simp only: time_clip.simps ab nl if_False tr of_int_of_nat_eq)
  then show ?thesis
    unfolding r by simp
qed

lemma to_number_missing:
  "x \<in> {JUndefined, JNull} \<Longrightarrow> \<not> truthy (JNum (js_mul (to_number p x) c))"
  by (auto simp: rnd64_def)

lemma tenth_of_odd_sample:
  "js_mul (Fin 1234567) (literal (1 / 10)) = Fin (2120969955888333 / 17179869184)"
  by code_simp

lemma quotient_of_odd_sample:
  "js_div (js_div (Fin (2120969955888333 / 17179869184)) 1024) 1024
     = Fin (2120969955888333 / 18014398509481984)"
  by code_simp

lemma two_decimals_odd_sample:
  "two_decimals (2120969955888333 / 18014398509481984) = lit ''0.12''"
  by code_simp

lemma two_decimals_zero: "two_decimals 0 = lit ''0.00''"
  by code_simp

lemma tenth_of_sample: "js_mul (Fin 10485760) (literal (1 / 10)) = Fin 1048576"
  by code_simp

subsection \<open>Printing numbers\<close>

lemma num_to_string_nat: "n < 2 ^ 53 \<Longrightarrow> num_to_string p (Fin (of_nat n)) = digits n"
proof -
  assume "n < 2 ^ 53"
  then have "(of_nat n :: rat) < of_nat (2 ^ 53)"
    by (simp only: of_nat_less_iff)
  then show ?thesis
    by (simp add: is_integer_def)
qed

lemma to_string_nat:
  "n < 2 ^ 53 \<Longrightarrow> to_string p (JNum (Fin (of_nat n))) = digits n"
  using num_to_string_nat [of n p] by simp

lemma fixed_digits_2:
  "fixed_digits 2 n = digits (n div 100) @ lit ''.'' @ [digit (n div 10 mod 10), digit (n mod 10)]"
proof -
  consider "n < 10" | "10 \<le> n" "n < 100" | "100 \<le> n" by linarith
  then show ?thesis
  proof cases
    case 1
    then have "digits n = [digit n]" "digits (n div 100) = [digit 0]"
      by (simp_all add: digits.simps)
    with 1 show ?thesis
      by (simp add: fixed_digits_def padStart_def Let_def numeral_2_eq_2)
  next
    case 2
    then have "digits n = [digit (n div 10), digit (n mod 10)]" "digits (n div 100) = [digit 0]"
      by (simp_all add: digits.simps [of n] digits.simps [of "n div 10"] digits.simps [of 0])
    with 2 show ?thesis
      by (simp add: fixed_digits_def padStart_def Let_def)
  next
    case 3
    then have "10 \<le> n div 10" by simp
    moreover have "n div 10 div 10 = n div 100"
      by (simp add: div_mult2_eq [symmetric])
    ultimately have d: "digits n = digits (n div 100) @ [digit (n div 10 mod 10), digit (n mod 10)]"
      using 3 by (simp add: digits.simps [of n] digits.simps [of "n div 10"])
    have "digits (n div 100) \<noteq> []" by (rule digits_nonempty)
    then have "1 \<le> length (digits (n div 100))"
      by (cases "digits (n div 100)") simp_all
    then show ?thesis
      by (simp add: fixed_digits_def padStart_def Let_def d)
  qed
qed

lemma toFixed_2:
  assumes "0 \<le> y" and "y < 10 ^ 21"
  shows "toFixed p 2 (Fin y) =
           digits (nat \<lfloor>y * 100 + 1 / 2\<rfloor> div 100) @ lit ''.'' @
           [digit (nat \<lfloor>y * 100 + 1 / 2\<rfloor> div 10 mod 10), digit (nat \<lfloor>y * 100 + 1 / 2\<rfloor> mod 10)]"
  using assms by (simp add: Let_def fixed_digits_2 del: num_to_string.simps)

lemma toFixed_two_decimals:
  assumes "\<bar>y\<bar> < 10 ^ 21"
  shows "toFixed p 2 (Fin y) = two_decimals y"
  using assms
  by (simp add: Let_def fixed_digits_2 two_decimals_def hundredths_def del: num_to_string.simps)

lemma div_1024_twice_double:
  assumes "0 < m" and "m < 2 ^ 53" and "- 1054 \<le> e"
    and "of_int m * 2 powi e < (2::rat) powi 1024"
  shows "js_div (js_div (Fin (of_int m * 2 powi e)) 1024) 1024
           = Fin (of_int m * 2 powi e / 1048576)"
proof -
  have p10: "(2::rat) powi (e - 10) = 2 powi e / 1024"
    using power_int_diff [of "2::rat" e 10] by simp
  have p20: "(2::rat) powi (e - 20) = 2 powi e / 1048576"
    using power_int_diff [of "2::rat" e 20] by simp
  have pos: "(0::rat) < of_int m * 2 powi e"
    using assms(1) by simp
  have "of_int m * 2 powi (e - 10) \<le> (of_int m * 2 powi e :: rat)"
    unfolding p10 using pos by simp
  with assms(4) have t10: "of_int m * 2 powi (e - 10) < (2::rat) powi 1024"
    by simp
  have "of_int m * 2 powi (e - 20) \<le> (of_int m * 2 powi e :: rat)"
    unfolding p20 using pos by simp
  with assms(4) have t20: "of_int m * 2 powi (e - 20) < (2::rat) powi 1024"
    by simp
  have "js_div (Fin (of_int m * 2 powi e)) 1024 = rnd64 (of_int m * 2 powi (e - 10))"
    by (simp only: js_div.simps p10 times_divide_eq_right)
  also have "\<dots> = Fin (of_int m * 2 powi (e - 10))"
    using assms(3) by (intro rnd64_exact [OF assms(1,2) _ t10]) simp
  finally have 1: "js_div (Fin (of_int m * 2 powi e)) 1024 = Fin (of_int m * 2 powi (e - 10))" .
  have q: "of_int m * 2 powi (e - 10) / 1024 = (of_int m * 2 powi (e - 20) :: rat)"
    by (simp add: p10 p20)
  have "js_div (Fin (of_int m * 2 powi (e - 10))) 1024 = rnd64 (of_int m * 2 powi (e - 20))"
    by (simp only: js_div.simps q)
  also have "\<dots> = Fin (of_int m * 2 powi (e - 20))"
    using assms(3) by (intro rnd64_exact [OF assms(1,2) _ t20]) simp
  finally have 2: "js_div (Fin (of_int m * 2 powi (e - 10))) 1024
                     = Fin (of_int m * 2 powi e / 1048576)"
    by (simp only: p20 times_divide_eq_right)
  show ?thesis
    by (simp only: 1 2)
qed

lemma nearest_hundredth:
  "nat \<lfloor>(of_nat n :: rat) / 1048576 * 100 + 1 / 2\<rfloor> = (n * 100 + 524288) div 1048576"
proof -
  have "(of_nat n :: rat) / 1048576 * 100 + 1 / 2 = of_int (int (n * 100 + 524288)) / of_int 1048576"
    by (simp add: field_simps)
  then have "\<lfloor>(of_nat n :: rat) / 1048576 * 100 + 1 / 2\<rfloor> = int (n * 100 + 524288) div 1048576"
    by (simp only: floor_divide_of_int_eq)
  then show ?thesis
    by (simp add: nat_div_distrib)
qed

lemma formatFileSize_bytes:
  assumes "0 < n" and "n < 2 ^ 53"
  shows "formatFileSize p (JNum (Fin (of_nat n))) =
           digits ((n * 100 + 524288) div 1048576 div 100) @ lit ''.'' @
           [digit ((n * 100 + 524288) div 1048576 div 10 mod 10),
            digit ((n * 100 + 524288) div 1048576 mod 10)] @ lit '' MB''"
proof -
  have "(of_nat n :: rat) < of_nat (2 ^ 53)"
    using assms(2) by (simp only: of_nat_less_iff)
  then have "(of_nat n :: rat) / 1048576 < 10 ^ 21"
    by simp
  moreover have "(0::rat) \<le> of_nat n / 1048576"
    by simp
  ultimately have "toFixed p 2 (Fin (of_nat n / 1048576)) =
           digits ((n * 100 + 524288) div 1048576 div 100) @ lit ''.'' @
           [digit ((n * 100 + 524288) div 1048576 div 10 mod 10),
            digit ((n * 100 + 524288) div 1048576 mod 10)]"
    by (simp only: toFixed_2 nearest_hundredth)
  moreover have "truthy (JNum (Fin (of_nat n)))"
    using assms(1) by simp
  ultimately show ?thesis
    by (simp only: formatFileSize_def to_number.simps div_1024_twice [OF assms] Let_def)
       simp
qed

subsection \<open>The cases of formatDate\<close>

lemma eight_digits_truthy: "eight_digits s \<Longrightarrow> truthy (JStr s)"
  by (auto simp: eight_digits_def)

lemma formatDate_eight_digits:
  assumes "eight_digits s"
  shows "formatDate p (JStr s) ts =
           Inr (case DateParse p (substring 0 4 s @ lit ''-'' @ substring 4 6 s @ lit ''-''
                                   @ substring 6 8 s) of
                  Fin t \<Rightarrow> toLocaleDateString p t
                | _ \<Rightarrow> lit ''Unknown'')"
  using assms eight_digits_truthy [OF assms]
  by (simp add: formatDate_def Let_def split: jsnum.splits)

lemma formatDate_without_upload_date:
  assumes "u \<in> {JUndefined, JNull} \<or> (\<exists>s. u = JStr s \<and> \<not> eight_digits s)"
  shows "formatDate p u ts =
           Inr (if truthy ts
                then (case time_clip (js_mul (to_number p ts) 1000) of
                        Fin t \<Rightarrow> toLocaleDateString p t
                      | _ \<Rightarrow> lit ''Unknown'')
                else lit ''Unknown'')"
  using assms
  by (auto simp: formatDate_def Let_def split: jsnum.splits)

lemma formatDate_returns:
  assumes "u \<in> {JUndefined, JNull} \<union> range JStr"
  shows "\<exists>date. formatDate p u ts = Inr date"
proof (cases "\<exists>s. u = JStr s \<and> eight_digits s")
  case True
  then show ?thesis using formatDate_eight_digits by blast
next
  case False
  with assms have "u \<in> {JUndefined, JNull} \<or> (\<exists>s. u = JStr s \<and> \<not> eight_digits s)"
    by auto
  from formatDate_without_upload_date [OF this] show ?thesis by blast
qed

lemma formatDate_absent: "formatDate p JUndefined JUndefined = Inr (lit ''Unknown'')"
  by (simp add: formatDate_def)

subsection \<open>The pattern scan finds the maximal tags\<close>

lemma hash_sign_not_tag_char: "\<not> tag_char hash_sign"
  by (simp add: tag_char_def hash_sign_def)

lemma tag_at_iff:
  "tag_at s = [t] \<longleftrightarrow>
     (\<exists>rest. s = hash_sign # t @ rest \<and> t \<noteq> [] \<and> (\<forall>c \<in> set t. tag_char c)
             \<and> (rest = [] \<or> \<not> tag_char (hd rest)))"
proof
  assume a: "tag_at s = [t]"
  then obtain cs where s: "s = hash_sign # cs" and t: "t = takeWhile tag_char cs" and ne: "t \<noteq> []"
    by (auto simp: tag_at_def split: list.splits if_splits)
  have "cs = t @ dropWhile tag_char cs"
    by (simp add: t)
  moreover have "\<forall>c \<in> set t. tag_char c"
    unfolding t by (auto dest: set_takeWhileD)
  moreover have "dropWhile tag_char cs = [] \<or> \<not> tag_char (hd (dropWhile tag_char cs))"
    using hd_dropWhile [of tag_char cs] by blast
  ultimately show "\<exists>rest. s = hash_sign # t @ rest \<and> t \<noteq> [] \<and> (\<forall>c \<in> set t. tag_char c)
             \<and> (rest = [] \<or> \<not> tag_char (hd rest))"
    using s ne by metis
next
  assume "\<exists>rest. s = hash_sign # t @ rest \<and> t \<noteq> [] \<and> (\<forall>c \<in> set t. tag_char c)
             \<and> (rest = [] \<or> \<not> tag_char (hd rest))"
  then obtain rest where s: "s = hash_sign # t @ rest" and ne: "t \<noteq> []"
    and al: "\<forall>c \<in> set t. tag_char c" and mx: "rest = [] \<or> \<not> tag_char (hd rest)"
    by blast
  from mx have "takeWhile tag_char rest = []"
    by (cases rest) auto
  with al have "takeWhile tag_char (t @ rest) = t"
    by (simp add: takeWhile_append2)
  with s ne show "tag_at s = [t]"
    by (simp add: tag_at_def)
qed

lemma maximal_tags_Nil: "maximal_tags [] = []"
  by (simp add: maximal_tags_def)

lemma maximal_tags_Cons: "maximal_tags (c # cs) = tag_at (c # cs) @ maximal_tags cs"
proof -
  have "[0..<length (c # cs)] = 0 # map Suc [0..<length cs]"
    by (simp add: upt_conv_Cons map_Suc_upt del: upt_Suc)
  then show ?thesis
    by (simp add: maximal_tags_def comp_def del: upt_Suc)
qed

lemma maximal_tags_dropWhile: "maximal_tags (dropWhile tag_char cs) = maximal_tags cs"
proof (induction cs)
  case Nil
  then show ?case by simp
next
  case (Cons c cs)
  show ?case
  proof (cases "tag_char c")
    case True
    then have "c \<noteq> hash_sign"
      using hash_sign_not_tag_char by auto
    then have "tag_at (c # cs) = []"
      by (simp add: tag_at_def)
    with True Cons show ?thesis
      by (simp add: maximal_tags_Cons)
  next
    case False
    then show ?thesis by simp
  qed
qed

lemma match_all_maximal_tags: "map (drop 1) (match_all s) = maximal_tags s"
proof (induction s rule: match_all.induct)
  case 1
  then show ?case by (simp add: maximal_tags_Nil)
next
  case (2 c cs)
  show ?case
  proof (cases "c = hash_sign \<and> takeWhile tag_char cs \<noteq> []")
    case True
    with 2 have "map (drop 1) (match_all (dropWhile tag_char cs)) = maximal_tags cs"
      by (simp add: maximal_tags_dropWhile)
    with True show ?thesis
      by (simp add: maximal_tags_Cons tag_at_def)
  next
    case False
    with 2 have "map (drop 1) (match_all cs) = maximal_tags cs"
      by simp
    with False show ?thesis
      by (auto simp: maximal_tags_Cons tag_at_def)
  qed
qed

lemma extractHashtags_maximal_tags: "extractHashtags (JStr s) = Inr (maximal_tags s)"
proof (cases "match_all s")
  case Nil
  then have "maximal_tags s = []"
    using match_all_maximal_tags [of s] by simp
  with Nil show ?thesis
    by (simp add: extractHashtags_def string_match_def)
next
  case (Cons m ms)
  then have "s \<noteq> []"
    by auto
  with Cons match_all_maximal_tags [of s] show ?thesis
    by (simp add: extractHashtags_def string_match_def)
qed

lemma extractHashtags_string: "\<exists>tags. extractHashtags (JStr s) = Inr tags"
  by (simp add: extractHashtags_def split: option.splits)

lemma extractHashtags_empty: "extractHashtags (JStr []) = Inr []"
  by (simp add: extractHashtags_def)

lemma example_tags:
  "maximal_tags (lit ''Check this #fun #2024tok out'') = [lit ''fun'', lit ''2024tok'']"
  by code_simp

subsection \<open>The returned document\<close>

lemma responseData_Inr:
  assumes "responseData p url v = Inr doc"
  shows "\<exists>enc up tags date.
           encodeURIComponent p url = Some enc
         \<and> ext_upper p (get_prop v (lit ''ext'')) = Inr up
         \<and> extractHashtags (jor (jor (get_prop v (lit ''description'')) (get_prop v (lit ''title''))) (JStr [])) = Inr tags
         \<and> formatDate p (get_prop v (lit ''upload_date'')) (get_prop v (lit ''timestamp'')) = Inr date
         \<and> videoUrl doc = JStr (lit ''/api/tiktok/download/video?url='' @ enc)
         \<and> audioUrl doc = JStr (lit ''/api/tiktok/download/audio?url='' @ enc)
         \<and> thumbnail doc = jor (get_prop v (lit ''thumbnail'')) (JStr (lit ''https://picsum.photos/seed/tiktok/1280/720''))
         \<and> title doc = jor (jor (get_prop v (lit ''title'')) (get_prop v (lit ''description''))) (JStr (lit ''TikTok Video''))
         \<and> description doc = jor (jor (get_prop v (lit ''description'')) (get_prop v (lit ''title''))) (JStr (lit ''No description available''))
         \<and> metadata doc = metadata_of p v up
         \<and> creator doc = creator_of v
         \<and> stats doc = stats_of v
         \<and> audio doc = audio_of v
         \<and> hashtags doc = JArr (map JStr tags)
         \<and> uploadDate doc = JStr date
         \<and> videoId doc = jor (jor (get_prop v (lit ''id'')) (get_prop v (lit ''display_id''))) (JStr (lit ''unknown''))"
  using assms
  by (auto simp: responseData_def split: option.splits sum.splits)

lemma responseData_returns:
  assumes "encodeURIComponent p url = Some enc"
    and "get_prop v (lit ''ext'') \<in> {JUndefined, JNull} \<union> range JStr"
    and "get_prop v (lit ''description'') \<in> {JUndefined, JNull} \<union> range JStr"
    and "get_prop v (lit ''title'') \<in> {JUndefined, JNull} \<union> range JStr"
    and "get_prop v (lit ''upload_date'') \<in> {JUndefined, JNull} \<union> range JStr"
  shows "\<exists>doc. responseData p url v = Inr doc"
proof -
  from assms(2) obtain up where 1: "ext_upper p (get_prop v (lit ''ext'')) = Inr up"
    by auto
  from assms(3,4) obtain tags where 2: "extractHashtags (jor (jor (get_prop v (lit ''description''))
       (get_prop v (lit ''title''))) (JStr [])) = Inr tags"
    using text_source_is_string [OF assms(3,4)] extractHashtags_string by metis
  from formatDate_returns [OF assms(5)] obtain date where 3: "formatDate p (get_prop v (lit ''upload_date''))
       (get_prop v (lit ''timestamp'')) = Inr date"
    by blast
  show ?thesis
    by (simp add: responseData_def assms(1) 1 2 3)
qed

lemma responseData_plain:
  assumes "encodeURIComponent p url = Some enc"
    and "get_prop v (lit ''ext'') = JUndefined"
    and "get_prop v (lit ''description'') = JUndefined"
    and "get_prop v (lit ''title'') = JUndefined"
    and "get_prop v (lit ''upload_date'') = JUndefined"
    and "get_prop v (lit ''timestamp'') = JUndefined"
  shows "\<exists>doc. responseData p url v = Inr doc"
  using assms
  by (simp add: responseData_def jor_def extractHashtags_empty formatDate_absent)

lemma resolution_of:
  "resolution (metadata_of p v up) =
     JStr (to_string p (jor (get_prop v (lit ''width'')) (JNum (Fin 1080))) @ lit ''x'' @
           to_string p (jor (get_prop v (lit ''height'')) (JNum (Fin 1920))))"
  by (simp add: metadata_of_def)

lemma zero_counter_same_response:
  "responseData p url (JObj [(lit ''view_count'', JNum (Fin 0))]) = responseData p url (JObj [])"
  by (simp add: responseData_def metadata_of_def stats_of_def creator_of_def audio_of_def
        jor_def lit_def cong del: option.case_cong_weak sum.case_cong_weak)

subsection \<open>Evaluations on the sample host\<close>

lemma sample_url_encoded:
  "encode_uri_component (lit ''https://www.tiktok.com/@a/video/1'')
     = Some (lit ''https%3A%2F%2Fwww.tiktok.com%2F%40a%2Fvideo%2F1'')"
  by (simp add: lit_def unreserved_def utf8_def percent_def hex_digit_def)

lemma sample_encodes: "encodeURIComponent sample_platform (lit ''https://www.tiktok.com/@a/video/1'')
     = Some (lit ''https%3A%2F%2Fwww.tiktok.com%2F%40a%2Fvideo%2F1'')"
  by (simp add: sample_platform_def sample_url_encoded)

lemma sample_info_typed:
  "get_prop sample_info (lit ''ext'') = JStr (lit ''mp4'')"
  "get_prop sample_info (lit ''description'') = JUndefined"
  "get_prop sample_info (lit ''title'') = JStr (lit ''Check this #fun #2024tok out'')"
  "get_prop sample_info (lit ''upload_date'') = JStr (lit ''20240115'')"
  "get_prop sample_info (lit ''timestamp'') = JNum (Fin 1700000000)"
  "get_prop sample_info (lit ''uploader_url'') = JUndefined"
  "get_prop sample_info (lit ''channel_url'') = JUndefined"
  by (simp_all add: sample_info_def lit_def)

lemma sample_parse_valid: "DateParse sample_platform (lit ''2024-01-15'') = Fin 1705276800000"
  by (simp add: sample_platform_def) code_simp


lemma civil_19737: "civil_from_days 19737 = (2024, 1, 15)"
  by code_simp

lemma civil_19736: "civil_from_days 19736 = (2024, 1, 14)"
  by code_simp

lemma civil_19675: "civil_from_days 19675 = (2023, 11, 14)"
  by code_simp


lemma civil_0: "civil_from_days 0 = (1970, 1, 1)"
  by code_simp

lemma long_date_upload: "long_date (2024, 1, 15) = lit ''January 15, 2024''"
  by code_simp

lemma long_date_day_before: "long_date (2024, 1, 14) = lit ''January 14, 2024''"
  by code_simp

lemma long_date_timestamp: "long_date (2023, 11, 14) = lit ''November 14, 2023''"
  by code_simp


lemma long_date_epoch: "long_date (1970, 1, 1) = lit ''January 1, 1970''"
  by code_simp

lemma local_day_between:
  assumes "of_int k * 86400000 \<le> t + of_int (LocalTZA p t)"
    and "t + of_int (LocalTZA p t) < (of_int k + 1) * 86400000"
  shows "local_day p t = k"
  unfolding local_day_def
proof (rule floor_unique)
  show "of_int k \<le> (t + of_int (LocalTZA p t)) / 86400000"
    using assms(1) by (simp add: le_divide_eq)
  show "(t + of_int (LocalTZA p t)) / 86400000 < of_int k + 1"
    using assms(2) by (simp add: divide_less_eq)
qed

lemma upload_day_east:
  assumes "0 \<le> LocalTZA p 1705276800000" and "LocalTZA p 1705276800000 < 86400000"
  shows "toLocaleDateString p 1705276800000 = lit ''January 15, 2024''"
proof -
  have "local_day p 1705276800000 = 19737"
    using assms by (intro local_day_between) simp_all
  then show ?thesis
    by (simp add: toLocaleDateString_def civil_19737 long_date_upload)
qed

lemma timestamp_day:
  assumes "- 80000000 \<le> LocalTZA p 1700000000000" and "LocalTZA p 1700000000000 < 6400000"
  shows "toLocaleDateString p 1700000000000 = lit ''November 14, 2023''"
proof -
  have "local_day p 1700000000000 = 19675"
    using assms by (intro local_day_between) simp_all
  then show ?thesis
    by (simp add: toLocaleDateString_def civil_19675 long_date_timestamp)
qed


lemma sample_render_timestamp: "toLocaleDateString sample_platform 1700000000000 = lit ''November 14, 2023''"
  by (rule timestamp_day) (simp_all add: sample_platform_def)

lemma west_parse_valid: "DateParse west_platform (lit ''2024-01-15'') = Fin 1705276800000"
  by (simp add: west_platform_def sample_platform_def) code_simp

lemma west_render_upload: "toLocaleDateString west_platform 1705276800000 = lit ''January 14, 2024''"
proof -
  have "local_day west_platform 1705276800000 = 19736"
    by (rule local_day_between) (simp_all add: west_platform_def)
  then show ?thesis
    by (simp add: toLocaleDateString_def civil_19736 long_date_day_before)
qed

lemma sample_render_epoch: "toLocaleDateString sample_platform 0 = lit ''January 1, 1970''"
proof -
  have "local_day sample_platform 0 = 0"
    by (rule local_day_between) (simp_all add: sample_platform_def)
  then show ?thesis
    by (simp add: toLocaleDateString_def civil_0 long_date_epoch)
qed











lemma eight_digits_20240115: "eight_digits (lit ''20240115'')"
  by code_simp


lemma not_eight_digits_2024: "\<not> eight_digits (lit ''2024'')"
  by (simp add: eight_digits_def lit_def)

lemma dashed_20240115:
  "substring 0 4 (lit ''20240115'') @ lit ''-'' @ substring 4 6 (lit ''20240115'') @ lit ''-''
     @ substring 6 8 (lit ''20240115'') = lit ''2024-01-15''"
  by (simp add: substring_def lit_def)



section \<open>The metadata endpoint\<close>

text \<open>
  Claim C1, as amended. In the document the handler passes to \<open>res.json\<close>, every field
  other than \<open>creator.avatar\<close> is neither \<open>undefined\<close> nor \<open>null\<close> (nor \<open>NaN\<close>): each ends
  its fallback chain with a literal or is built by a formatting function. In the JSON body
  such a field is \<open>null\<close> only when its value is an infinite number, which a \<open>||\<close> chain
  takes over from the extractor output. \<open>creator.avatar\<close> is
  \<open>uploader_url || channel_url\<close> with no literal at the end: it is \<open>undefined\<close> or
  \<open>null\<close> exactly when \<open>uploader_url\<close> is falsy and \<open>channel_url\<close> is absent or \<open>null\<close>.
\<close>

theorem all_fields_but_avatar_defined:
  assumes "responseData p url v = Inr doc"
  shows "(\<forall>x \<in> set (fields_but_avatar doc). x \<noteq> JUndefined \<and> x \<noteq> JNull \<and> x \<noteq> JNum NaN)
       \<and> (\<forall>x \<in> set (fields_but_avatar doc).
             null_in_body x = (x = JNum PosInf \<or> x = JNum NegInf))
       \<and> avatar (creator doc)
           = jor (get_prop v (lit ''uploader_url'')) (get_prop v (lit ''channel_url''))
       \<and> (avatar (creator doc) \<in> {JUndefined, JNull}
            = (\<not> truthy (get_prop v (lit ''uploader_url''))
               \<and> get_prop v (lit ''channel_url'') \<in> {JUndefined, JNull}))
       \<and> (truthy (get_prop v (lit ''uploader_url'')) \<or> truthy (get_prop v (lit ''channel_url''))
           \<longrightarrow> avatar (creator doc) \<noteq> JUndefined \<and> avatar (creator doc) \<noteq> JNull)"
proof -
  from responseData_Inr [OF assms] obtain enc up tags date where
    f: "videoUrl doc = JStr (lit ''/api/tiktok/download/video?url='' @ enc)"
       "audioUrl doc = JStr (lit ''/api/tiktok/download/audio?url='' @ enc)"
       "thumbnail doc = jor (get_prop v (lit ''thumbnail''))
          (JStr (lit ''https://picsum.photos/seed/tiktok/1280/720''))"
       "title doc = jor (jor (get_prop v (lit ''title'')) (get_prop v (lit ''description'')))
          (JStr (lit ''TikTok Video''))"
       "description doc = jor (jor (get_prop v (lit ''description'')) (get_prop v (lit ''title'')))
          (JStr (lit ''No description available''))"
       "metadata doc = metadata_of p v up"
       "creator doc = creator_of v"
       "stats doc = stats_of v"
       "audio doc = audio_of v"
       "hashtags doc = JArr (map JStr tags)"
       "uploadDate doc = JStr date"
       "videoId doc = jor (jor (get_prop v (lit ''id'')) (get_prop v (lit ''display_id'')))
          (JStr (lit ''unknown''))"
    by blast
  have top: "\<forall>x \<in> set [videoUrl doc, audioUrl doc, thumbnail doc, title doc, description doc,
                         hashtags doc, uploadDate doc, videoId doc].
               x \<noteq> JUndefined \<and> x \<noteq> JNull \<and> x \<noteq> JNum NaN"
    by (simp add: f jor_defined jor_not_NaN)
  have meta: "\<forall>x \<in> set [duration (metadata doc), videoSize (metadata doc), audioSize (metadata doc),
      resolution (metadata doc), format (metadata doc), codec (metadata doc), fps (metadata doc),
      bitrate (metadata doc), width (metadata doc), height (metadata doc), audioCodec (metadata doc),
      audioChannels (metadata doc), audioSampleRate (metadata doc)].
        x \<noteq> JUndefined \<and> x \<noteq> JNull \<and> x \<noteq> JNum NaN"
    by (simp add: f metadata_of_def jor_defined jor_not_NaN)
  have rest: "\<forall>x \<in> set [username (creator doc), nickname (creator doc), verified (creator doc),
      views (stats doc), likes (stats doc), comments (stats doc), shares (stats doc),
      favorites (stats doc), audio_title (audio doc), author (audio doc)].
        x \<noteq> JUndefined \<and> x \<noteq> JNull \<and> x \<noteq> JNum NaN"
    by (simp add: f creator_of_def stats_of_def audio_of_def jor_defined jor_not_NaN)
  from top meta rest
  have all: "\<forall>x \<in> set (fields_but_avatar doc). x \<noteq> JUndefined \<and> x \<noteq> JNull \<and> x \<noteq> JNum NaN"
    by (simp add: fields_but_avatar_def)
  then have body: "\<forall>x \<in> set (fields_but_avatar doc).
             null_in_body x = (x = JNum PosInf \<or> x = JNum NegInf)"
    by (simp add: null_in_body_def)
  have av: "avatar (creator doc)
           = jor (get_prop v (lit ''uploader_url'')) (get_prop v (lit ''channel_url''))"
    by (simp add: f creator_of_def)
  have ava: "avatar (creator doc) \<in> {JUndefined, JNull}
            = (\<not> truthy (get_prop v (lit ''uploader_url''))
               \<and> get_prop v (lit ''channel_url'') \<in> {JUndefined, JNull})"
    unfolding av by (rule avatar_absent_iff)
  have avd: "truthy (get_prop v (lit ''uploader_url'')) \<or> truthy (get_prop v (lit ''channel_url''))
           \<longrightarrow> avatar (creator doc) \<noteq> JUndefined \<and> avatar (creator doc) \<noteq> JNull"
    unfolding av using truthy_defined by (auto simp: jor_def)
  from all body av ava avd show ?thesis
    by blast
qed

theorem all_fields_but_avatar_defined_witness:
  "map_sum id (list_all (\<lambda>x. x \<noteq> JUndefined \<and> x \<noteq> JNull \<and> x \<noteq> JNum NaN) \<circ> fields_but_avatar)
     (responseData sample_platform (lit ''https://www.tiktok.com/@a/video/1'')
        (JObj [(lit ''channel_url'', JStr (lit ''https://www.tiktok.com/@a''))])) = Inr True
   \<and> map_sum id (avatar \<circ> creator)
     (responseData sample_platform (lit ''https://www.tiktok.com/@a/video/1'')
        (JObj [(lit ''channel_url'', JStr (lit ''https://www.tiktok.com/@a''))]))
       = Inr (JStr (lit ''https://www.tiktok.com/@a''))
   \<and> map_sum id (avatar \<circ> creator)
     (responseData sample_platform (lit ''https://www.tiktok.com/@a/video/1'')
        (JObj [(lit ''uploader_url'', JNum (Fin 0)), (lit ''channel_url'', JStr [])]))
       = Inr (JStr [])
   \<and> map_sum id (fps \<circ> metadata)
     (responseData sample_platform (lit ''https://www.tiktok.com/@a/video/1'')
        (JObj [(lit ''fps'', JNum PosInf)])) = Inr (JNum PosInf)
   \<and> null_in_body (JNum PosInf)"
proof -
  let ?u = "lit ''https://www.tiktok.com/@a/video/1''"
  let ?v = "JObj [(lit ''channel_url'', JStr (lit ''https://www.tiktok.com/@a''))]"
  let ?w = "JObj [(lit ''uploader_url'', JNum (Fin 0)), (lit ''channel_url'', JStr [])]"
  let ?i = "JObj [(lit ''fps'', JNum PosInf)]"
  have "\<exists>doc. responseData sample_platform ?u ?v = Inr doc"
    by (rule responseData_plain [OF sample_encodes]) (simp_all add: lit_def)
  then obtain doc where d: "responseData sample_platform ?u ?v = Inr doc"
    by blast
  have c: "get_prop ?v (lit ''channel_url'') = JStr (lit ''https://www.tiktok.com/@a'')"
    by simp
  have u: "get_prop ?v (lit ''uploader_url'') = JUndefined"
    by (simp add: lit_def)
  have t: "truthy (get_prop ?v (lit ''channel_url''))"
    unfolding c by (simp add: lit_def)
  from all_fields_but_avatar_defined [OF d] t
  have 1: "list_all (\<lambda>x. x \<noteq> JUndefined \<and> x \<noteq> JNull \<and> x \<noteq> JNum NaN) (fields_but_avatar doc)"
    and 2: "avatar (creator doc) = JStr (lit ''https://www.tiktok.com/@a'')"
    unfolding c u by (simp_all add: list_all_iff jor_def)
  have "\<exists>doc. responseData sample_platform ?u ?w = Inr doc"
    by (rule responseData_plain [OF sample_encodes]) (simp_all add: lit_def)
  then obtain doc' where d': "responseData sample_platform ?u ?w = Inr doc'"
    by blast
  have kw: "get_prop ?w (lit ''uploader_url'') = JNum (Fin 0)"
    "get_prop ?w (lit ''channel_url'') = JStr []"
    by (simp_all add: lit_def)
  from all_fields_but_avatar_defined [OF d']
  have 3: "avatar (creator doc') = JStr []"
    unfolding kw by (simp add: jor_def)
  have "\<exists>doc. responseData sample_platform ?u ?i = Inr doc"
    by (rule responseData_plain [OF sample_encodes]) (simp_all add: lit_def)
  then obtain doc'' where d'': "responseData sample_platform ?u ?i = Inr doc''"
    by blast
  from responseData_Inr [OF d''] obtain up where "metadata doc'' = metadata_of sample_platform ?i up"
    by blast
  then have 4: "fps (metadata doc'') = JNum PosInf"
    by (simp add: metadata_of_def jor_def)
  have 5: "null_in_body (JNum PosInf)"
    by (simp add: null_in_body_def)
  from d d' d'' 1 2 3 4 5 show ?thesis
    by simp
qed

text \<open>
  Claim C1 as stated fails: for the extractor output \<open>{}\<close> the handler returns a document
  whose \<open>creator.avatar\<close> is \<open>undefined\<close>.
\<close>

theorem avatar_undefined_counterexample:
  "map_sum id (avatar \<circ> creator)
     (responseData sample_platform (lit ''https://www.tiktok.com/@a/video/1'') (JObj []))
   = Inr JUndefined"
proof -
  from responseData_plain [OF sample_encodes, of "JObj []"]
  obtain doc where d: "responseData sample_platform (lit ''https://www.tiktok.com/@a/video/1'') (JObj []) = Inr doc"
    by auto
  from responseData_Inr [OF d] have "creator doc = creator_of (JObj [])"
    by blast
  then have "avatar (creator doc) = JUndefined"
    by (simp add: creator_of_def jor_def)
  with d show ?thesis by simp
qed

text \<open>
  Claim C2. When the schema rejects the request body (the \<open>url\<close> does not pass the TikTok
  URL validator), the handler has run no command, and it answers with status 400 and the
  message of the first validation issue.
\<close>

theorem invalid_url_rejected_before_extractor:
  "schema_parse w req_body = Inl errors \<Longrightarrow>
     snd (tiktok_info p w req_body) = []
     \<and> (\<forall>m ms. errors = m # ms \<longrightarrow>
           fst (tiktok_info p w req_body)
             = Some \<lparr> status = 400, headers = [], body = Message m \<rparr>)"
  by (simp add: tiktok_info_def split: list.splits)

theorem invalid_url_rejected_before_extractor_witness:
  "schema_parse sample_collaborators (JObj [(lit ''url'', JStr (lit ''ftp://example.com/v''))])
     = Inl [lit ''Please enter a valid TikTok URL'']
   \<and> tiktok_info sample_platform sample_collaborators
        (JObj [(lit ''url'', JStr (lit ''ftp://example.com/v''))])
     = (Some \<lparr> status = 400, headers = [],
               body = Message (lit ''Please enter a valid TikTok URL'') \<rparr>, [])"
proof -
  let ?b = "JObj [(lit ''url'', JStr (lit ''ftp://example.com/v''))]"
  have rej: "schema_parse sample_collaborators ?b = Inl [lit ''Please enter a valid TikTok URL'']"
    by (simp add: sample_collaborators_def) (simp add: lit_def)
  from invalid_url_rejected_before_extractor [OF rej, of sample_platform] rej
  show ?thesis by (simp add: prod_eq_iff)
qed

section \<open>The download endpoint\<close>

text \<open>
  Claim C3. A download request without the \<open>url\<close> query parameter (or with an empty one) is
  answered with status 400 and the message "URL is required". When the extractor's child
  process closes with a code other than 0, the answer is status 500 with the message
  "Failed to download content", the handler has set no header and the body is not a file
  stream. When it closes with code 0, the handler sets \<open>Content-Type\<close> and
  \<open>Content-Disposition\<close> and the answer is status 200 with these two headers, streaming
  \<open>outputFile\<close>, the file the extractor was told to write; should \<open>res.setHeader\<close> throw on
  one of the two values (a \<open>type\<close> with a character no header may hold), the answer is
  status 500 with the message instead. A response whose body is the file stream has status
  200, streams \<open>outputFile\<close>, and was produced after the child closed with code 0.
\<close>

theorem download_status_by_exit_code:
  "tiktok_download h type None =
     (Some \<lparr> status = 400, headers = [], body = Message (lit ''URL is required'') \<rparr>, [])
   \<and> tiktok_download h type (Some []) =
     (Some \<lparr> status = 400, headers = [], body = Message (lit ''URL is required'') \<rparr>, [])
   \<and> (\<forall>u code. u \<noteq> [] \<and> mkdir h (tempPath h)
         \<and> spawn h (lit ''yt-dlp'') (spawn_args h type u) = Closed code \<and> code \<noteq> Some 0
       \<longrightarrow> tiktok_download h type (Some u) =
             (Some \<lparr> status = 500, headers = [],
                     body = Message (lit ''Failed to download content'') \<rparr>,
              [(lit ''yt-dlp'', spawn_args h type u)]))
   \<and> (\<forall>u. u \<noteq> [] \<and> mkdir h (tempPath h)
         \<and> spawn h (lit ''yt-dlp'') (spawn_args h type u) = Closed (Some 0)
         \<and> setHeader_ok h (lit ''Content-Type'') (content_type_of type)
         \<and> setHeader_ok h (lit ''Content-Disposition'')
             (lit ''attachment; filename='' @ [dquote]
                @ file_name type (now h) (extension_of type) @ [dquote])
       \<longrightarrow> tiktok_download h type (Some u) =
             (Some \<lparr> status = 200,
                     headers =
                       [(lit ''Content-Type'', content_type_of type),
                        (lit ''Content-Disposition'',
                         lit ''attachment; filename='' @ [dquote]
                           @ file_name type (now h) (extension_of type) @ [dquote])],
                     body = FileStream (outputFile h type) \<rparr>,
              [(lit ''yt-dlp'', options_of type @ [lit ''-o'', outputFile h type, u])]))
   \<and> (\<forall>u. u \<noteq> [] \<and> mkdir h (tempPath h)
         \<and> spawn h (lit ''yt-dlp'') (spawn_args h type u) = Closed (Some 0)
         \<and> \<not> (setHeader_ok h (lit ''Content-Type'') (content_type_of type)
              \<and> setHeader_ok h (lit ''Content-Disposition'')
                  (lit ''attachment; filename='' @ [dquote]
                     @ file_name type (now h) (extension_of type) @ [dquote]))
       \<longrightarrow> tiktok_download h type (Some u) =
             (Some \<lparr> status = 500,
                     headers =
                       (if setHeader_ok h (lit ''Content-Type'') (content_type_of type)
                        then [(lit ''Content-Type'', content_type_of type)] else []),
                     body = Message (lit ''Failed to download content'') \<rparr>,
              [(lit ''yt-dlp'', spawn_args h type u)]))
   \<and> (\<forall>url r calls f. tiktok_download h type url = (Some r, calls) \<and> body r = FileStream f
       \<longrightarrow> status r = 200 \<and> f = outputFile h type
           \<and> (\<exists>u. url = Some u
                 \<and> spawn h (lit ''yt-dlp'') (spawn_args h type u) = Closed (Some 0)))"
  by (auto simp: tiktok_download_def failed_to_download_def json_message_def Let_def
        content_type_header_def content_disposition_header_def spawn_args_def
           split: option.splits if_splits child_outcome.splits)

theorem download_status_by_exit_code_witness:
  "spawn sample_host (lit ''yt-dlp'')
     (spawn_args sample_host (lit ''video'') (lit ''https://example.com/x'')) = Closed (Some 1)
   \<and> tiktok_download sample_host (lit ''video'') (Some (lit ''https://example.com/x'')) =
       (Some \<lparr> status = 500, headers = [],
               body = Message (lit ''Failed to download content'') \<rparr>,
        [(lit ''yt-dlp'', spawn_args sample_host (lit ''video'') (lit ''https://example.com/x''))])
   \<and> spawn sample_host (lit ''yt-dlp'')
       (spawn_args sample_host (lit ''audio'') (lit ''https://www.tiktok.com/@a/video/1''))
         = Closed (Some 0)
   \<and> tiktok_download sample_host (lit ''audio'') (Some (lit ''https://www.tiktok.com/@a/video/1'')) =
       (Some \<lparr> status = 200,
               headers = [(lit ''Content-Type'', lit ''audio/mpeg''),
                          (lit ''Content-Disposition'',
                           lit ''attachment; filename='' @ [dquote]
                             @ lit ''tiktok-audio-1700000000000.mp3'' @ [dquote])],
               body = FileStream (lit ''/srv/app/temp/tiktok-audio-1700000000000.mp3'') \<rparr>,
        [(lit ''yt-dlp'',
          [lit ''--extract-audio'', lit ''--audio-format'', lit ''mp3'', lit ''--force-overwrites'',
           lit ''-o'', lit ''/srv/app/temp/tiktok-audio-1700000000000.mp3'',
           lit ''https://www.tiktok.com/@a/video/1''])])
   \<and> \<not> setHeader_ok sample_host (lit ''Content-Disposition'')
         (lit ''attachment; filename='' @ [dquote]
            @ file_name [0x4E2D] (now sample_host) (extension_of [0x4E2D]) @ [dquote])
   \<and> tiktok_download sample_host [0x4E2D] (Some (lit ''https://www.tiktok.com/@a/video/1'')) =
       (Some \<lparr> status = 500, headers = [(lit ''Content-Type'', lit ''audio/mpeg'')],
               body = Message (lit ''Failed to download content'') \<rparr>,
        [(lit ''yt-dlp'', spawn_args sample_host [0x4E2D] (lit ''https://www.tiktok.com/@a/video/1''))])"
proof -
  let ?u = "lit ''https://example.com/x''"
  let ?t = "lit ''https://www.tiktok.com/@a/video/1''"
  have u: "?u \<noteq> []" "?t \<noteq> []"
    by (simp_all add: lit_def)
  have mk: "mkdir sample_host (tempPath sample_host)"
    by (simp add: sample_host_def)
  have sp: "spawn sample_host (lit ''yt-dlp'') (spawn_args sample_host (lit ''video'') ?u)
              = Closed (Some 1)"
    by (simp add: spawn_args_def) (simp add: sample_host_def lit_def)
  have code: "Some (1::int) \<noteq> Some 0"
    by simp
  from download_status_by_exit_code [of sample_host "lit ''video''"] u mk sp code
  have 1: "tiktok_download sample_host (lit ''video'') (Some ?u) =
       (Some \<lparr> status = 500, headers = [],
               body = Message (lit ''Failed to download content'') \<rparr>,
        [(lit ''yt-dlp'', spawn_args sample_host (lit ''video'') ?u)])"
    by blast
  have ne: "lit ''audio'' \<noteq> lit ''video''"
    by (simp add: lit_def)
  have name: "file_name (lit ''audio'') (now sample_host) (extension_of (lit ''audio''))
                = lit ''tiktok-audio-1700000000000.mp3''"
    using ne by (simp add: file_name_def extension_of_def)
       (simp add: sample_host_def digits_sample_now lit_append)
  have ofile: "outputFile sample_host (lit ''audio'')
                 = lit ''/srv/app/temp/tiktok-audio-1700000000000.mp3''"
    unfolding outputFile_def name by (simp add: tempPath_def sample_host_def lit_append)
  have opts: "options_of (lit ''audio'') =
      [lit ''--extract-audio'', lit ''--audio-format'', lit ''mp3'', lit ''--force-overwrites'']"
    using ne by (simp add: options_of_def)
  have ct: "content_type_of (lit ''audio'') = lit ''audio/mpeg''"
    using ne by (simp add: content_type_of_def)
  have sp0: "spawn sample_host (lit ''yt-dlp'') (spawn_args sample_host (lit ''audio'') ?t)
              = Closed (Some 0)"
    by (simp add: spawn_args_def) (simp add: sample_host_def)
  have ok1: "setHeader_ok sample_host (lit ''Content-Type'') (content_type_of (lit ''audio''))"
    unfolding ct by (simp add: sample_host_def lit_def)
  have ok2: "setHeader_ok sample_host (lit ''Content-Disposition'')
       (lit ''attachment; filename='' @ [dquote]
          @ file_name (lit ''audio'') (now sample_host) (extension_of (lit ''audio'')) @ [dquote])"
    unfolding name by (simp add: sample_host_def lit_def dquote_def)
  from download_status_by_exit_code [of sample_host "lit ''audio''"] u mk sp0 ok1 ok2
  have "tiktok_download sample_host (lit ''audio'') (Some ?t) =
             (Some \<lparr> status = 200,
                     headers =
                       [(lit ''Content-Type'', content_type_of (lit ''audio'')),
                        (lit ''Content-Disposition'',
                         lit ''attachment; filename='' @ [dquote]
                           @ file_name (lit ''audio'') (now sample_host)
                               (extension_of (lit ''audio'')) @ [dquote])],
                     body = FileStream (outputFile sample_host (lit ''audio'')) \<rparr>,
              [(lit ''yt-dlp'', options_of (lit ''audio'')
                  @ [lit ''-o'', outputFile sample_host (lit ''audio''), ?t])])"
    by blast
  then have 2: "tiktok_download sample_host (lit ''audio'') (Some ?t) =
       (Some \<lparr> status = 200,
               headers = [(lit ''Content-Type'', lit ''audio/mpeg''),
                          (lit ''Content-Disposition'',
                           lit ''attachment; filename='' @ [dquote]
                             @ lit ''tiktok-audio-1700000000000.mp3'' @ [dquote])],
               body = FileStream (lit ''/srv/app/temp/tiktok-audio-1700000000000.mp3'') \<rparr>,
        [(lit ''yt-dlp'',
          [lit ''--extract-audio'', lit ''--audio-format'', lit ''mp3'', lit ''--force-overwrites'',
           lit ''-o'', lit ''/srv/app/temp/tiktok-audio-1700000000000.mp3'', ?t])])"
    unfolding name ofile opts ct by simp
  have nec: "[0x4E2D] \<noteq> lit ''video''"
    by (simp add: lit_def)
  have ctc: "content_type_of [0x4E2D] = lit ''audio/mpeg''"
    using nec by (simp add: content_type_of_def)
  have spc: "spawn sample_host (lit ''yt-dlp'') (spawn_args sample_host [0x4E2D] ?t)
              = Closed (Some 0)"
    by (simp add: spawn_args_def) (simp add: sample_host_def)
  have okc: "setHeader_ok sample_host (lit ''Content-Type'') (content_type_of [0x4E2D])"
    unfolding ctc by (simp add: sample_host_def lit_def)
  have refused: "\<not> setHeader_ok sample_host (lit ''Content-Disposition'')
         (lit ''attachment; filename='' @ [dquote]
            @ file_name [0x4E2D] (now sample_host) (extension_of [0x4E2D]) @ [dquote])"
    by (simp add: file_name_def) (simp add: sample_host_def)
  from download_status_by_exit_code [of sample_host "[0x4E2D]"] u mk spc refused
  have "tiktok_download sample_host [0x4E2D] (Some ?t) =
             (Some \<lparr> status = 500,
                     headers =
                       (if setHeader_ok sample_host (lit ''Content-Type'') (content_type_of [0x4E2D])
                        then [(lit ''Content-Type'', content_type_of [0x4E2D])] else []),
                     body = Message (lit ''Failed to download content'') \<rparr>,
              [(lit ''yt-dlp'', spawn_args sample_host [0x4E2D] ?t)])"
    by blast
  then have 3: "tiktok_download sample_host [0x4E2D] (Some ?t) =
       (Some \<lparr> status = 500, headers = [(lit ''Content-Type'', lit ''audio/mpeg'')],
               body = Message (lit ''Failed to download content'') \<rparr>,
        [(lit ''yt-dlp'', spawn_args sample_host [0x4E2D] ?t)])"
    using okc unfolding ctc by simp
  from sp 1 sp0 2 refused 3 show ?thesis
    by (intro conjI)
qed

text \<open>
  Claim C4. The route parameter \<open>type\<close> is only compared with the string "video". With
  exactly that value the extension is mp4, the content type video/mp4 and the options are
  the video options: the output file name ends in \<open>.mp4\<close>, the argument vector of every
  extractor invocation starts with \<open>--format best[ext=mp4] --force-overwrites\<close>, a response
  with status 200 carries \<open>Content-Type: video/mp4\<close> and an mp4 file name in
  \<open>Content-Disposition\<close>, and that response is given when the extractor exits with code 0.
  With any other value the output file name ends in \<open>.mp3\<close>, the argument vector of every
  extractor invocation starts with \<open>--extract-audio --audio-format mp3 --force-overwrites\<close>,
  a response with status 200 carries \<open>Content-Type: audio/mpeg\<close> and an mp3 file name in
  \<open>Content-Disposition\<close>, and that response is given when the extractor exits with code 0
  and \<open>res.setHeader\<close> takes the file name.
\<close>

theorem type_selects_branch:
  "(type = lit ''video'' \<longrightarrow>
      extension_of type = lit ''mp4'' \<and> content_type_of type = lit ''video/mp4''
      \<and> options_of type = [lit ''--format'', lit ''best[ext=mp4]'', lit ''--force-overwrites''])
   \<and> (type \<noteq> lit ''video'' \<longrightarrow>
      outputFile h type =
        path_join h (tempPath h) (lit ''tiktok-'' @ type @ lit ''-'' @ digits (now h) @ lit ''.mp3'')
      \<and> spawn_args h type u =
          [lit ''--extract-audio'', lit ''--audio-format'', lit ''mp3'', lit ''--force-overwrites'',
           lit ''-o'', outputFile h type, u]
      \<and> (\<forall>url r calls. tiktok_download h type url = (r, calls) \<longrightarrow>
            (\<forall>c \<in> set calls. \<exists>u'. c = (lit ''yt-dlp'',
               [lit ''--extract-audio'', lit ''--audio-format'', lit ''mp3'',
                lit ''--force-overwrites'', lit ''-o'', outputFile h type, u']))
            \<and> (\<forall>r'. r = Some r' \<and> status r' = 200 \<longrightarrow>
                  headers r' =
                    [(lit ''Content-Type'', lit ''audio/mpeg''),
                     (lit ''Content-Disposition'',
                      lit ''attachment; filename='' @ [dquote] @ lit ''tiktok-'' @ type @ lit ''-''
                        @ digits (now h) @ lit ''.mp3'' @ [dquote])])))
   \<and> (type = lit ''video'' \<longrightarrow>
      outputFile h type =
        path_join h (tempPath h) (lit ''tiktok-video-'' @ digits (now h) @ lit ''.mp4'')
      \<and> spawn_args h type u =
          [lit ''--format'', lit ''best[ext=mp4]'', lit ''--force-overwrites'',
           lit ''-o'', outputFile h type, u]
      \<and> (\<forall>url r calls. tiktok_download h type url = (r, calls) \<longrightarrow>
            (\<forall>c \<in> set calls. \<exists>u'. c = (lit ''yt-dlp'',
               [lit ''--format'', lit ''best[ext=mp4]'', lit ''--force-overwrites'',
                lit ''-o'', outputFile h type, u']))
            \<and> (\<forall>r'. r = Some r' \<and> status r' = 200 \<longrightarrow>
                  headers r' =
                    [(lit ''Content-Type'', lit ''video/mp4''),
                     (lit ''Content-Disposition'',
                      lit ''attachment; filename='' @ [dquote] @ lit ''tiktok-video-''
                        @ digits (now h) @ lit ''.mp4'' @ [dquote])]))
      \<and> (u \<noteq> [] \<and> mkdir h (tempPath h)
          \<and> spawn h (lit ''yt-dlp'')
               [lit ''--format'', lit ''best[ext=mp4]'', lit ''--force-overwrites'',
                lit ''-o'', outputFile h type, u] = Closed (Some 0)
          \<and> setHeader_ok h (lit ''Content-Type'') (lit ''video/mp4'')
          \<and> setHeader_ok h (lit ''Content-Disposition'')
               (lit ''attachment; filename='' @ [dquote] @ lit ''tiktok-video-''
                  @ digits (now h) @ lit ''.mp4'' @ [dquote])
          \<longrightarrow> tiktok_download h type (Some u) =
                (Some \<lparr> status = 200,
                        headers =
                          [(lit ''Content-Type'', lit ''video/mp4''),
                           (lit ''Content-Disposition'',
                            lit ''attachment; filename='' @ [dquote] @ lit ''tiktok-video-''
                              @ digits (now h) @ lit ''.mp4'' @ [dquote])],
                        body = FileStream (outputFile h type) \<rparr>,
                 [(lit ''yt-dlp'',
                   [lit ''--format'', lit ''best[ext=mp4]'', lit ''--force-overwrites'',
                    lit ''-o'', outputFile h type, u])])))
   \<and> (type \<noteq> lit ''video'' \<longrightarrow>
        (u \<noteq> [] \<and> mkdir h (tempPath h)
          \<and> spawn h (lit ''yt-dlp'')
               [lit ''--extract-audio'', lit ''--audio-format'', lit ''mp3'',
                lit ''--force-overwrites'', lit ''-o'', outputFile h type, u] = Closed (Some 0)
          \<and> setHeader_ok h (lit ''Content-Type'') (lit ''audio/mpeg'')
          \<and> setHeader_ok h (lit ''Content-Disposition'')
               (lit ''attachment; filename='' @ [dquote] @ lit ''tiktok-'' @ type @ lit ''-''
                  @ digits (now h) @ lit ''.mp3'' @ [dquote])
          \<longrightarrow> tiktok_download h type (Some u) =
                (Some \<lparr> status = 200,
                        headers =
                          [(lit ''Content-Type'', lit ''audio/mpeg''),
                           (lit ''Content-Disposition'',
                            lit ''attachment; filename='' @ [dquote] @ lit ''tiktok-'' @ type
                              @ lit ''-'' @ digits (now h) @ lit ''.mp3'' @ [dquote])],
                        body = FileStream (outputFile h type) \<rparr>,
                 [(lit ''yt-dlp'',
                   [lit ''--extract-audio'', lit ''--audio-format'', lit ''mp3'',
                    lit ''--force-overwrites'', lit ''-o'', outputFile h type, u])])))"
proof -
  have pre: "lit ''tiktok-'' @ lit ''video'' @ lit ''-'' @ x = lit ''tiktok-video-'' @ x" for x
    by (simp add: lit_def)
  have suf: "lit ''.'' @ lit ''mp4'' @ y = lit ''.mp4'' @ y" "lit ''.'' @ lit ''mp4'' = lit ''.mp4''"
    for y
    by (simp_all add: lit_def)
  have audio: "type \<noteq> lit ''video'' \<longrightarrow>
      outputFile h type =
        path_join h (tempPath h) (lit ''tiktok-'' @ type @ lit ''-'' @ digits (now h) @ lit ''.mp3'')
      \<and> spawn_args h type u =
          [lit ''--extract-audio'', lit ''--audio-format'', lit ''mp3'', lit ''--force-overwrites'',
           lit ''-o'', outputFile h type, u]
      \<and> (\<forall>url r calls. tiktok_download h type url = (r, calls) \<longrightarrow>
            (\<forall>c \<in> set calls. \<exists>u'. c = (lit ''yt-dlp'',
               [lit ''--extract-audio'', lit ''--audio-format'', lit ''mp3'',
                lit ''--force-overwrites'', lit ''-o'', outputFile h type, u']))
            \<and> (\<forall>r'. r = Some r' \<and> status r' = 200 \<longrightarrow>
                  headers r' =
                    [(lit ''Content-Type'', lit ''audio/mpeg''),
                     (lit ''Content-Disposition'',
                      lit ''attachment; filename='' @ [dquote] @ lit ''tiktok-'' @ type @ lit ''-''
                        @ digits (now h) @ lit ''.mp3'' @ [dquote])]))"
    by (auto simp: tiktok_download_def failed_to_download_def json_message_def Let_def
        outputFile_def spawn_args_def extension_of_def options_of_def content_type_of_def
        file_name_def content_type_header_def content_disposition_header_def lit_append
           split: option.splits if_splits child_outcome.splits)
  have video: "type = lit ''video'' \<longrightarrow>
      outputFile h type =
        path_join h (tempPath h) (lit ''tiktok-video-'' @ digits (now h) @ lit ''.mp4'')
      \<and> spawn_args h type u =
          [lit ''--format'', lit ''best[ext=mp4]'', lit ''--force-overwrites'',
           lit ''-o'', outputFile h type, u]
      \<and> (\<forall>url r calls. tiktok_download h type url = (r, calls) \<longrightarrow>
            (\<forall>c \<in> set calls. \<exists>u'. c = (lit ''yt-dlp'',
               [lit ''--format'', lit ''best[ext=mp4]'', lit ''--force-overwrites'',
                lit ''-o'', outputFile h type, u']))
            \<and> (\<forall>r'. r = Some r' \<and> status r' = 200 \<longrightarrow>
                  headers r' =
                    [(lit ''Content-Type'', lit ''video/mp4''),
                     (lit ''Content-Disposition'',
                      lit ''attachment; filename='' @ [dquote] @ lit ''tiktok-video-''
                        @ digits (now h) @ lit ''.mp4'' @ [dquote])]))"
    by (auto simp: tiktok_download_def failed_to_download_def json_message_def Let_def
        outputFile_def spawn_args_def extension_of_def options_of_def content_type_of_def
        file_name_def content_type_header_def content_disposition_header_def pre suf
           split: option.splits if_splits child_outcome.splits)
  have helpers: "type = lit ''video'' \<longrightarrow>
      extension_of type = lit ''mp4'' \<and> content_type_of type = lit ''video/mp4''
      \<and> options_of type = [lit ''--format'', lit ''best[ext=mp4]'', lit ''--force-overwrites'']"
    by (simp add: extension_of_def content_type_of_def options_of_def)
  have video_ok: "type = lit ''video'' \<longrightarrow>
        (u \<noteq> [] \<and> mkdir h (tempPath h)
          \<and> spawn h (lit ''yt-dlp'')
               [lit ''--format'', lit ''best[ext=mp4]'', lit ''--force-overwrites'',
                lit ''-o'', outputFile h type, u] = Closed (Some 0)
          \<and> setHeader_ok h (lit ''Content-Type'') (lit ''video/mp4'')
          \<and> setHeader_ok h (lit ''Content-Disposition'')
               (lit ''attachment; filename='' @ [dquote] @ lit ''tiktok-video-''
                  @ digits (now h) @ lit ''.mp4'' @ [dquote])
          \<longrightarrow> tiktok_download h type (Some u) =
                (Some \<lparr> status = 200,
                        headers =
                          [(lit ''Content-Type'', lit ''video/mp4''),
                           (lit ''Content-Disposition'',
                            lit ''attachment; filename='' @ [dquote] @ lit ''tiktok-video-''
                              @ digits (now h) @ lit ''.mp4'' @ [dquote])],
                        body = FileStream (outputFile h type) \<rparr>,
                 [(lit ''yt-dlp'',
                   [lit ''--format'', lit ''best[ext=mp4]'', lit ''--force-overwrites'',
                    lit ''-o'', outputFile h type, u])]))"
    by (simp add: tiktok_download_def Let_def spawn_args_def extension_of_def options_of_def
          content_type_of_def file_name_def content_type_header_def
          content_disposition_header_def pre suf)
  have audio_ok: "type \<noteq> lit ''video'' \<longrightarrow>
        (u \<noteq> [] \<and> mkdir h (tempPath h)
          \<and> spawn h (lit ''yt-dlp'')
               [lit ''--extract-audio'', lit ''--audio-format'', lit ''mp3'',
                lit ''--force-overwrites'', lit ''-o'', outputFile h type, u] = Closed (Some 0)
          \<and> setHeader_ok h (lit ''Content-Type'') (lit ''audio/mpeg'')
          \<and> setHeader_ok h (lit ''Content-Disposition'')
               (lit ''attachment; filename='' @ [dquote] @ lit ''tiktok-'' @ type @ lit ''-''
                  @ digits (now h) @ lit ''.mp3'' @ [dquote])
          \<longrightarrow> tiktok_download h type (Some u) =
                (Some \<lparr> status = 200,
                        headers =
                          [(lit ''Content-Type'', lit ''audio/mpeg''),
                           (lit ''Content-Disposition'',
                            lit ''attachment; filename='' @ [dquote] @ lit ''tiktok-'' @ type
                              @ lit ''-'' @ digits (now h) @ lit ''.mp3'' @ [dquote])],
                        body = FileStream (outputFile h type) \<rparr>,
                 [(lit ''yt-dlp'',
                   [lit ''--extract-audio'', lit ''--audio-format'', lit ''mp3'',
                    lit ''--force-overwrites'', lit ''-o'', outputFile h type, u])]))"
    by (simp add: tiktok_download_def Let_def spawn_args_def extension_of_def options_of_def
          content_type_of_def file_name_def content_type_header_def
          content_disposition_header_def lit_append)
  from helpers audio video video_ok audio_ok show ?thesis
    by blast
qed

theorem type_selects_branch_witness:
  "lit ''gif'' \<noteq> lit ''video''
   \<and> tiktok_download sample_host (lit ''gif'') (Some (lit ''https://www.tiktok.com/@a/video/1'')) =
       (Some \<lparr> status = 200,
               headers = [(lit ''Content-Type'', lit ''audio/mpeg''),
                          (lit ''Content-Disposition'',
                           lit ''attachment; filename='' @ [dquote]
                             @ lit ''tiktok-gif-1700000000000.mp3'' @ [dquote])],
               body = FileStream (lit ''/srv/app/temp/tiktok-gif-1700000000000.mp3'') \<rparr>,
        [(lit ''yt-dlp'',
          [lit ''--extract-audio'', lit ''--audio-format'', lit ''mp3'', lit ''--force-overwrites'',
           lit ''-o'', lit ''/srv/app/temp/tiktok-gif-1700000000000.mp3'',
           lit ''https://www.tiktok.com/@a/video/1''])])
   \<and> tiktok_download sample_host (lit ''video'') (Some (lit ''https://www.tiktok.com/@a/video/1'')) =
       (Some \<lparr> status = 200,
               headers = [(lit ''Content-Type'', lit ''video/mp4''),
                          (lit ''Content-Disposition'',
                           lit ''attachment; filename='' @ [dquote]
                             @ lit ''tiktok-video-1700000000000.mp4'' @ [dquote])],
               body = FileStream (lit ''/srv/app/temp/tiktok-video-1700000000000.mp4'') \<rparr>,
        [(lit ''yt-dlp'',
          [lit ''--format'', lit ''best[ext=mp4]'', lit ''--force-overwrites'',
           lit ''-o'', lit ''/srv/app/temp/tiktok-video-1700000000000.mp4'',
           lit ''https://www.tiktok.com/@a/video/1''])])"
proof -
  let ?u = "lit ''https://www.tiktok.com/@a/video/1''"
  note gif = type_selects_branch [of "lit ''gif''" sample_host ?u]
  note vid = type_selects_branch [of "lit ''video''" sample_host ?u]
  have ne: "lit ''gif'' \<noteq> lit ''video''"
    by (simp add: lit_def)
  have u: "?u \<noteq> []"
    by (simp add: lit_def)
  have mk: "mkdir sample_host (tempPath sample_host)"
    by (simp add: sample_host_def)
  have now: "digits (now sample_host) = lit ''1700000000000''"
    by (simp add: sample_host_def digits_sample_now)
  from gif ne
  have "outputFile sample_host (lit ''gif'') =
        path_join sample_host (tempPath sample_host)
          (lit ''tiktok-'' @ lit ''gif'' @ lit ''-'' @ digits (now sample_host) @ lit ''.mp3'')"
    by blast
  then have ofile: "outputFile sample_host (lit ''gif'')
                 = lit ''/srv/app/temp/tiktok-gif-1700000000000.mp3''"
    unfolding now by (simp add: tempPath_def sample_host_def lit_append)
  have cd: "lit ''attachment; filename='' @ [dquote] @ lit ''tiktok-'' @ lit ''gif'' @ lit ''-''
              @ digits (now sample_host) @ lit ''.mp3'' @ [dquote]
            = lit ''attachment; filename='' @ [dquote] @ lit ''tiktok-gif-1700000000000.mp3''
              @ [dquote]"
    unfolding now by (simp add: lit_append)
  have sp: "spawn sample_host (lit ''yt-dlp'')
              [lit ''--extract-audio'', lit ''--audio-format'', lit ''mp3'',
               lit ''--force-overwrites'', lit ''-o'', outputFile sample_host (lit ''gif''), ?u]
              = Closed (Some 0)"
    by (simp add: sample_host_def)
  have ok1: "setHeader_ok sample_host (lit ''Content-Type'') (lit ''audio/mpeg'')"
    by (simp add: sample_host_def lit_def)
  have ok2: "setHeader_ok sample_host (lit ''Content-Disposition'')
       (lit ''attachment; filename='' @ [dquote] @ lit ''tiktok-'' @ lit ''gif'' @ lit ''-''
              @ digits (now sample_host) @ lit ''.mp3'' @ [dquote])"
    unfolding cd by (simp add: sample_host_def lit_def dquote_def)
  from gif ne u mk sp ok1 ok2
  have "tiktok_download sample_host (lit ''gif'') (Some ?u) =
                (Some \<lparr> status = 200,
                        headers =
                          [(lit ''Content-Type'', lit ''audio/mpeg''),
                           (lit ''Content-Disposition'',
                            lit ''attachment; filename='' @ [dquote] @ lit ''tiktok-'' @ lit ''gif''
                              @ lit ''-'' @ digits (now sample_host) @ lit ''.mp3'' @ [dquote])],
                        body = FileStream (outputFile sample_host (lit ''gif'')) \<rparr>,
                 [(lit ''yt-dlp'',
                   [lit ''--extract-audio'', lit ''--audio-format'', lit ''mp3'',
                    lit ''--force-overwrites'', lit ''-o'', outputFile sample_host (lit ''gif''),
                    ?u])])"
    by blast
  then have 1: "tiktok_download sample_host (lit ''gif'') (Some ?u) =
       (Some \<lparr> status = 200,
               headers = [(lit ''Content-Type'', lit ''audio/mpeg''),
                          (lit ''Content-Disposition'',
                           lit ''attachment; filename='' @ [dquote]
                             @ lit ''tiktok-gif-1700000000000.mp3'' @ [dquote])],
               body = FileStream (lit ''/srv/app/temp/tiktok-gif-1700000000000.mp3'') \<rparr>,
        [(lit ''yt-dlp'',
          [lit ''--extract-audio'', lit ''--audio-format'', lit ''mp3'', lit ''--force-overwrites'',
           lit ''-o'', lit ''/srv/app/temp/tiktok-gif-1700000000000.mp3'', ?u])])"
    unfolding cd ofile by simp
  from vid
  have "outputFile sample_host (lit ''video'') =
        path_join sample_host (tempPath sample_host)
          (lit ''tiktok-video-'' @ digits (now sample_host) @ lit ''.mp4'')"
    by blast
  then have vfile: "outputFile sample_host (lit ''video'')
                 = lit ''/srv/app/temp/tiktok-video-1700000000000.mp4''"
    unfolding now by (simp add: tempPath_def sample_host_def lit_append)
  have vcd: "lit ''attachment; filename='' @ [dquote] @ lit ''tiktok-video-''
              @ digits (now sample_host) @ lit ''.mp4'' @ [dquote]
            = lit ''attachment; filename='' @ [dquote] @ lit ''tiktok-video-1700000000000.mp4''
              @ [dquote]"
    unfolding now by (simp add: lit_append)
  have vsp: "spawn sample_host (lit ''yt-dlp'')
              [lit ''--format'', lit ''best[ext=mp4]'', lit ''--force-overwrites'',
               lit ''-o'', outputFile sample_host (lit ''video''), ?u]
              = Closed (Some 0)"
    by (simp add: sample_host_def)
  have vok1: "setHeader_ok sample_host (lit ''Content-Type'') (lit ''video/mp4'')"
    by (simp add: sample_host_def lit_def)
  have vok2: "setHeader_ok sample_host (lit ''Content-Disposition'')
       (lit ''attachment; filename='' @ [dquote] @ lit ''tiktok-video-''
              @ digits (now sample_host) @ lit ''.mp4'' @ [dquote])"
    unfolding vcd by (simp add: sample_host_def lit_def dquote_def)
  from vid u mk vsp vok1 vok2
  have "tiktok_download sample_host (lit ''video'') (Some ?u) =
                (Some \<lparr> status = 200,
                        headers =
                          [(lit ''Content-Type'', lit ''video/mp4''),
                           (lit ''Content-Disposition'',
                            lit ''attachment; filename='' @ [dquote] @ lit ''tiktok-video-''
                              @ digits (now sample_host) @ lit ''.mp4'' @ [dquote])],
                        body = FileStream (outputFile sample_host (lit ''video'')) \<rparr>,
                 [(lit ''yt-dlp'',
                   [lit ''--format'', lit ''best[ext=mp4]'', lit ''--force-overwrites'',
                    lit ''-o'', outputFile sample_host (lit ''video''), ?u])])"
    by blast
  then have 2: "tiktok_download sample_host (lit ''video'') (Some ?u) =
       (Some \<lparr> status = 200,
               headers = [(lit ''Content-Type'', lit ''video/mp4''),
                          (lit ''Content-Disposition'',
                           lit ''attachment; filename='' @ [dquote]
                             @ lit ''tiktok-video-1700000000000.mp4'' @ [dquote])],
               body = FileStream (lit ''/srv/app/temp/tiktok-video-1700000000000.mp4'') \<rparr>,
        [(lit ''yt-dlp'',
          [lit ''--format'', lit ''best[ext=mp4]'', lit ''--force-overwrites'',
           lit ''-o'', lit ''/srv/app/temp/tiktok-video-1700000000000.mp4'', ?u])])"
    unfolding vcd vfile by simp
  from ne 1 2 show ?thesis
    by (intro conjI)
qed

section \<open>The derivation rules of the response document\<close>

text \<open>
  Claim C5, as amended. \<open>uploadDate\<close> prefers an \<open>upload_date\<close> of exactly eight digits,
  parsed as the date \<open>YYYY-MM-DD\<close>, whatever the timestamp is; when \<open>upload_date\<close> is absent or
  not exactly eight digits it falls back to a truthy timestamp, in seconds, times 1000
  (exact for whole seconds within the range of dates); a timestamp of 0 counts as absent;
  when neither gives a valid date the result is "Unknown". The output is "Month day, year"
  of the calendar day of the time value in the host's local time. \<open>upload_date\<close> =
  "20240115", which every engine parses to midnight UTC of that day, gives "January 15,
  2024" on a host whose local time is at or ahead of UTC, and timestamp 1700000000 alone
  gives the local day of 1700000000000 milliseconds, 14 November 2023 at 22:13:20 UTC.
\<close>

theorem upload_date_rendering:
  "(eight_digits s \<longrightarrow>
      formatDate p (JStr s) ts =
        Inr (case DateParse p (substring 0 4 s @ lit ''-'' @ substring 4 6 s @ lit ''-''
                                @ substring 6 8 s) of
               Fin t \<Rightarrow> toLocaleDateString p t
             | _ \<Rightarrow> lit ''Unknown''))
   \<and> (u \<in> {JUndefined, JNull} \<or> (\<exists>s'. u = JStr s' \<and> \<not> eight_digits s') \<longrightarrow>
        (\<forall>x. x \<noteq> 0 \<longrightarrow>
           formatDate p u (JNum (Fin x)) =
             Inr (case time_clip (js_mul (Fin x) 1000) of
                    Fin t \<Rightarrow> toLocaleDateString p t
                  | _ \<Rightarrow> lit ''Unknown''))
      \<and> (\<forall>n. 0 < n \<and> n \<le> 8640000000000 \<longrightarrow>
           formatDate p u (JNum (Fin (of_nat n))) = Inr (toLocaleDateString p (of_nat n * 1000)))
      \<and> (\<forall>z. \<not> truthy z \<longrightarrow> formatDate p u z = Inr (lit ''Unknown'')))
   \<and> (\<forall>t. DateParse p (lit ''2024-01-15'') = Fin t \<longrightarrow>
          formatDate p (JStr (lit ''20240115'')) ts = Inr (toLocaleDateString p t))
   \<and> formatDate p JUndefined (JNum (Fin 1700000000)) = Inr (toLocaleDateString p 1700000000000)
   \<and> (u \<in> {JUndefined, JNull} \<or> (\<exists>s'. u = JStr s' \<and> \<not> eight_digits s') \<longrightarrow>
        formatDate p u (JNum (Fin 0)) = Inr (lit ''Unknown''))
   \<and> (\<forall>t y m d. civil_from_days (local_day p t) = (y, m, d) \<and> 1 \<le> y \<longrightarrow>
        toLocaleDateString p t
          = month_name m @ lit '' '' @ digits (nat d) @ lit '', '' @ digits (nat y))
   \<and> (DateParse p (lit ''2024-01-15'') = Fin 1705276800000
        \<and> 0 \<le> LocalTZA p 1705276800000 \<and> LocalTZA p 1705276800000 < 86400000 \<longrightarrow>
        formatDate p (JStr (lit ''20240115'')) ts = Inr (lit ''January 15, 2024''))
   \<and> (- 80000000 \<le> LocalTZA p 1700000000000 \<and> LocalTZA p 1700000000000 < 6400000 \<longrightarrow>
        formatDate p JUndefined (JNum (Fin 1700000000)) = Inr (lit ''November 14, 2023''))"
proof -
  have a: "eight_digits s \<longrightarrow>
      formatDate p (JStr s) ts =
        Inr (case DateParse p (substring 0 4 s @ lit ''-'' @ substring 4 6 s @ lit ''-''
                                @ substring 6 8 s) of
               Fin t \<Rightarrow> toLocaleDateString p t
             | _ \<Rightarrow> lit ''Unknown'')"
    using formatDate_eight_digits by blast
  have b: "u \<in> {JUndefined, JNull} \<or> (\<exists>s'. u = JStr s' \<and> \<not> eight_digits s') \<longrightarrow>
        (\<forall>x. x \<noteq> 0 \<longrightarrow>
           formatDate p u (JNum (Fin x)) =
             Inr (case time_clip (js_mul (Fin x) 1000) of
                    Fin t \<Rightarrow> toLocaleDateString p t
                  | _ \<Rightarrow> lit ''Unknown''))
      \<and> (\<forall>n. 0 < n \<and> n \<le> 8640000000000 \<longrightarrow>
           formatDate p u (JNum (Fin (of_nat n))) = Inr (toLocaleDateString p (of_nat n * 1000)))
      \<and> (\<forall>z. \<not> truthy z \<longrightarrow> formatDate p u z = Inr (lit ''Unknown''))"
  proof
    assume h: "u \<in> {JUndefined, JNull} \<or> (\<exists>s'. u = JStr s' \<and> \<not> eight_digits s')"
    note f = formatDate_without_upload_date [OF h, of p]
    have 1: "\<forall>x. x \<noteq> 0 \<longrightarrow>
           formatDate p u (JNum (Fin x)) =
             Inr (case time_clip (js_mul (Fin x) 1000) of
                    Fin t \<Rightarrow> toLocaleDateString p t
                  | _ \<Rightarrow> lit ''Unknown'')"
      by (simp add: f del: js_mul.simps)
    have 2: "\<forall>n. 0 < n \<and> n \<le> 8640000000000 \<longrightarrow>
           formatDate p u (JNum (Fin (of_nat n))) = Inr (toLocaleDateString p (of_nat n * 1000))"
      by (simp add: f timestamp_millis del: js_mul.simps time_clip.simps)
    have 3: "\<forall>z. \<not> truthy z \<longrightarrow> formatDate p u z = Inr (lit ''Unknown'')"
      by (simp add: f)
    from 1 2 3 show "(\<forall>x. x \<noteq> 0 \<longrightarrow>
           formatDate p u (JNum (Fin x)) =
             Inr (case time_clip (js_mul (Fin x) 1000) of
                    Fin t \<Rightarrow> toLocaleDateString p t
                  | _ \<Rightarrow> lit ''Unknown''))
      \<and> (\<forall>n. 0 < n \<and> n \<le> 8640000000000 \<longrightarrow>
           formatDate p u (JNum (Fin (of_nat n))) = Inr (toLocaleDateString p (of_nat n * 1000)))
      \<and> (\<forall>z. \<not> truthy z \<longrightarrow> formatDate p u z = Inr (lit ''Unknown''))"
      by blast
  qed
  have c: "\<forall>t. DateParse p (lit ''2024-01-15'') = Fin t \<longrightarrow>
          formatDate p (JStr (lit ''20240115'')) ts = Inr (toLocaleDateString p t)"
    by (simp add: formatDate_eight_digits [OF eight_digits_20240115] dashed_20240115)
  have "formatDate p JUndefined (JNum (Fin (of_nat 1700000000)))
          = Inr (toLocaleDateString p (of_nat 1700000000 * 1000))"
    using formatDate_without_upload_date [of JUndefined p "JNum (Fin (of_nat 1700000000))"]
      timestamp_millis [of 1700000000]
    by (simp del: js_mul.simps time_clip.simps)
  then have d: "formatDate p JUndefined (JNum (Fin 1700000000))
                  = Inr (toLocaleDateString p 1700000000000)"
    by simp
  have z: "u \<in> {JUndefined, JNull} \<or> (\<exists>s'. u = JStr s' \<and> \<not> eight_digits s') \<longrightarrow>
        formatDate p u (JNum (Fin 0)) = Inr (lit ''Unknown'')"
    using b by simp
  have r: "\<forall>t y m d. civil_from_days (local_day p t) = (y, m, d) \<and> 1 \<le> y \<longrightarrow>
        toLocaleDateString p t
          = month_name m @ lit '' '' @ digits (nat d) @ lit '', '' @ digits (nat y)"
    by (simp add: toLocaleDateString_def long_date_def)
  have e: "DateParse p (lit ''2024-01-15'') = Fin 1705276800000
        \<and> 0 \<le> LocalTZA p 1705276800000 \<and> LocalTZA p 1705276800000 < 86400000 \<longrightarrow>
        formatDate p (JStr (lit ''20240115'')) ts = Inr (lit ''January 15, 2024'')"
    using c upload_day_east [of p] by simp
  have g: "- 80000000 \<le> LocalTZA p 1700000000000 \<and> LocalTZA p 1700000000000 < 6400000 \<longrightarrow>
        formatDate p JUndefined (JNum (Fin 1700000000)) = Inr (lit ''November 14, 2023'')"
    using d timestamp_day [of p] by simp
  from a b c d z r e g show ?thesis
    by blast
qed

theorem upload_date_rendering_witness:
  "eight_digits (lit ''20240115'')
   \<and> formatDate sample_platform (JStr (lit ''20240115'')) (JNum (Fin 1700000000))
       = Inr (lit ''January 15, 2024'')
   \<and> formatDate sample_platform JUndefined (JNum (Fin 1700000000))
       = Inr (lit ''November 14, 2023'')
   \<and> \<not> eight_digits (lit ''2024'')
   \<and> formatDate sample_platform (JStr (lit ''2024'')) (JNum (Fin 1700000000))
       = Inr (lit ''November 14, 2023'')
   \<and> formatDate sample_platform (JStr (lit ''2024'')) JNull = Inr (lit ''Unknown'')
   \<and> formatDate sample_platform (JStr (lit ''2024'')) (JNum (Fin 0)) = Inr (lit ''Unknown'')
   \<and> civil_from_days (local_day sample_platform 1705276800000) = (2024, 1, 15)
   \<and> toLocaleDateString sample_platform 1705276800000
       = month_name 1 @ lit '' '' @ digits (nat 15) @ lit '', '' @ digits (nat 2024)"
proof -
  note t = upload_date_rendering [of "lit ''20240115''" sample_platform "JNum (Fin 1700000000)"
             "JStr (lit ''2024'')"]
  have tz: "LocalTZA sample_platform x = 0" for x
    by (simp add: sample_platform_def)
  from t
  have e: "DateParse sample_platform (lit ''2024-01-15'') = Fin 1705276800000
        \<and> 0 \<le> LocalTZA sample_platform 1705276800000
        \<and> LocalTZA sample_platform 1705276800000 < 86400000 \<longrightarrow>
        formatDate sample_platform (JStr (lit ''20240115'')) (JNum (Fin 1700000000))
          = Inr (lit ''January 15, 2024'')"
    by blast
  from t
  have g: "- 80000000 \<le> LocalTZA sample_platform 1700000000000
        \<and> LocalTZA sample_platform 1700000000000 < 6400000 \<longrightarrow>
        formatDate sample_platform JUndefined (JNum (Fin 1700000000))
          = Inr (lit ''November 14, 2023'')"
    by blast
  from e sample_parse_valid
  have 1: "formatDate sample_platform (JStr (lit ''20240115'')) (JNum (Fin 1700000000))
       = Inr (lit ''January 15, 2024'')"
    by (simp add: tz)
  from g have 2: "formatDate sample_platform JUndefined (JNum (Fin 1700000000))
       = Inr (lit ''November 14, 2023'')"
    by (simp add: tz)
  have u: "JStr (lit ''2024'') \<in> {JUndefined, JNull}
           \<or> (\<exists>s'. JStr (lit ''2024'') = JStr s' \<and> \<not> eight_digits s')"
    using not_eight_digits_2024 by simp
  note b = t [THEN conjunct2, THEN conjunct1, rule_format, OF u]
  have "formatDate sample_platform (JStr (lit ''2024'')) (JNum (Fin (of_nat 1700000000)))
       = Inr (toLocaleDateString sample_platform (of_nat 1700000000 * 1000))"
    by (rule b [THEN conjunct2, THEN conjunct1, rule_format]) simp
  then have 3: "formatDate sample_platform (JStr (lit ''2024'')) (JNum (Fin 1700000000))
       = Inr (lit ''November 14, 2023'')"
    by (simp add: sample_render_timestamp)
  have 4: "formatDate sample_platform (JStr (lit ''2024'')) JNull = Inr (lit ''Unknown'')"
    by (rule b [THEN conjunct2, THEN conjunct2, rule_format]) simp
  from t u
  have 5: "formatDate sample_platform (JStr (lit ''2024'')) (JNum (Fin 0)) = Inr (lit ''Unknown'')"
    by blast
  have "local_day sample_platform 1705276800000 = 19737"
    by (rule local_day_between) (simp_all add: tz)
  then have 6: "civil_from_days (local_day sample_platform 1705276800000) = (2024, 1, 15)"
    by (simp add: civil_19737)
  note r = t [THEN conjunct2, THEN conjunct2, THEN conjunct2, THEN conjunct2, THEN conjunct2,
              THEN conjunct1, rule_format, of 1705276800000 2024 1 15]
  have 7: "toLocaleDateString sample_platform 1705276800000
       = month_name 1 @ lit '' '' @ digits (nat 15) @ lit '', '' @ digits (nat 2024)"
    by (rule r) (simp add: 6)
  from eight_digits_20240115 not_eight_digits_2024 1 2 3 4 5 6 7 show ?thesis
    by (intro conjI)
qed

text \<open>
  Claim C5 as stated fails at two inputs. With no \<open>upload_date\<close> and timestamp 0, the time
  value 0 * 1000 is the valid date 1 January 1970, yet the result is "Unknown": the test
  \<open>!date && timestamp\<close> takes 0 for a missing timestamp. And on a host eight hours behind
  UTC, \<open>upload_date\<close> = "20240115" is printed as "January 14, 2024": the string is parsed as
  midnight UTC and printed in local time.
\<close>

theorem upload_date_rendering_counterexample:
  "formatDate sample_platform JUndefined (JNum (Fin 0)) = Inr (lit ''Unknown'')
   \<and> time_clip (js_mul (Fin 0) 1000) = Fin 0
   \<and> toLocaleDateString sample_platform 0 = lit ''January 1, 1970''
   \<and> DateParse west_platform (lit ''2024-01-15'') = Fin 1705276800000
   \<and> formatDate west_platform (JStr (lit ''20240115'')) JUndefined
       = Inr (lit ''January 14, 2024'')"
proof -
  have 1: "formatDate sample_platform JUndefined (JNum (Fin 0)) = Inr (lit ''Unknown'')"
    by (simp add: formatDate_def)
  have 2: "time_clip (js_mul (Fin 0) 1000) = Fin 0"
    by (simp add: rnd64_def trunc_def)
  have 5: "formatDate west_platform (JStr (lit ''20240115'')) JUndefined
       = Inr (lit ''January 14, 2024'')"
    by (simp add: formatDate_eight_digits [OF eight_digits_20240115] dashed_20240115
          west_parse_valid west_render_upload)
  from 1 2 sample_render_epoch west_parse_valid 5 show ?thesis
    by (intro conjI)
qed

text \<open>
  Claim C6. \<open>extractHashtags\<close> returns \<open>maximal_tags\<close> of its text: for each position
  from left to right where a \<open>#\<close> is followed by at least one class character, the longest
  run of class characters after the \<open>#\<close>, without the \<open>#\<close>; a tag that occurs twice is
  listed twice. The class is \<open>tag_char\<close>: the word characters and every code unit from
  U+00C0 to U+017F (the letters of that range and the two signs U+00D7 and U+00F7). The
  text is the description, or the title when the description is absent or empty, or the
  empty string, which has no tags. "Check this #fun #2024tok out" gives fun, 2024tok.
\<close>

theorem hashtags_are_maximal_matches:
  assumes "responseData p url v = Inr doc"
  shows "(\<forall>s. extractHashtags (JStr s) = Inr (maximal_tags s))
       \<and> (\<forall>d. get_prop v (lit ''description'') = JStr d \<and> d \<noteq> []
             \<longrightarrow> hashtags doc = JArr (map JStr (maximal_tags d)))
       \<and> (\<forall>t. \<not> truthy (get_prop v (lit ''description'')) \<and> get_prop v (lit ''title'') = JStr t
             \<longrightarrow> hashtags doc = JArr (map JStr (maximal_tags t)))
       \<and> (\<not> truthy (get_prop v (lit ''description'')) \<and> \<not> truthy (get_prop v (lit ''title''))
             \<longrightarrow> hashtags doc = JArr [])
       \<and> extractHashtags (JStr (lit ''Check this #fun #2024tok out''))
           = Inr [lit ''fun'', lit ''2024tok'']"
proof -
  from responseData_Inr [OF assms] obtain tags where
    e: "extractHashtags (jor (jor (get_prop v (lit ''description''))
                                  (get_prop v (lit ''title''))) (JStr [])) = Inr tags"
    and h: "hashtags doc = JArr (map JStr tags)"
    by blast
  have 1: "\<forall>s. extractHashtags (JStr s) = Inr (maximal_tags s)"
    by (simp add: extractHashtags_maximal_tags)
  have 2: "\<forall>d. get_prop v (lit ''description'') = JStr d \<and> d \<noteq> []
             \<longrightarrow> hashtags doc = JArr (map JStr (maximal_tags d))"
    using e h by (auto simp: text_source_description extractHashtags_maximal_tags)
  have 3: "\<forall>t. \<not> truthy (get_prop v (lit ''description'')) \<and> get_prop v (lit ''title'') = JStr t
             \<longrightarrow> hashtags doc = JArr (map JStr (maximal_tags t))"
    using e h by (auto simp: text_source_title extractHashtags_maximal_tags)
  have 4: "\<not> truthy (get_prop v (lit ''description'')) \<and> \<not> truthy (get_prop v (lit ''title''))
             \<longrightarrow> hashtags doc = JArr []"
    using e h by (auto simp: text_source_none extractHashtags_maximal_tags maximal_tags_Nil)
  have 5: "extractHashtags (JStr (lit ''Check this #fun #2024tok out''))
           = Inr [lit ''fun'', lit ''2024tok'']"
    by (simp add: extractHashtags_maximal_tags example_tags)
  from 1 2 3 4 5 show ?thesis
    by blast
qed

theorem hashtags_are_maximal_matches_witness:
  "get_prop sample_info (lit ''description'') = JUndefined
   \<and> get_prop sample_info (lit ''title'') = JStr (lit ''Check this #fun #2024tok out'')
   \<and> map_sum id hashtags
        (responseData sample_platform (lit ''https://www.tiktok.com/@a/video/1'') sample_info)
      = Inr (JArr [JStr (lit ''fun''), JStr (lit ''2024tok'')])"
proof -
  have "\<exists>doc. responseData sample_platform (lit ''https://www.tiktok.com/@a/video/1'') sample_info
          = Inr doc"
    by (rule responseData_returns [OF sample_encodes]) (simp_all add: sample_info_typed)
  then obtain doc where
    d: "responseData sample_platform (lit ''https://www.tiktok.com/@a/video/1'') sample_info
          = Inr doc"
    by blast
  note t = hashtags_are_maximal_matches [OF d]
  have f: "\<not> truthy (get_prop sample_info (lit ''description''))"
    by (simp add: sample_info_typed)
  from t f sample_info_typed(3)
  have "hashtags doc = JArr (map JStr (maximal_tags (lit ''Check this #fun #2024tok out'')))"
    by blast
  then have "hashtags doc = JArr [JStr (lit ''fun''), JStr (lit ''2024tok'')]"
    by (simp add: example_tags)
  with d sample_info_typed(2,3) show ?thesis
    by simp
qed

text \<open>
  Claim C7, as amended. When the extractor output lacks an optional numeric field (the
  property is missing or \<open>null\<close>), the field derived from it is its literal default: each
  counter of \<open>stats\<close> is 0, the byte sizes are "N/A", the duration is "00:00" (and fps 30,
  bitrate "N/A", width 1080, height 1920, audio channels 2, sample rate "44.1 kHz"). A
  counter the extractor reports as 0 gives the same 0: the response does not tell it from
  an absent counter.
\<close>

theorem numeric_defaults:
  assumes "responseData p url v = Inr doc"
  shows "(get_prop v (lit ''view_count'') \<in> {JUndefined, JNull, JNum (Fin 0)}
            \<longrightarrow> views (stats doc) = JNum (Fin 0))
       \<and> (get_prop v (lit ''like_count'') \<in> {JUndefined, JNull, JNum (Fin 0)}
            \<longrightarrow> likes (stats doc) = JNum (Fin 0))
       \<and> (get_prop v (lit ''comment_count'') \<in> {JUndefined, JNull, JNum (Fin 0)}
            \<longrightarrow> comments (stats doc) = JNum (Fin 0))
       \<and> (get_prop v (lit ''repost_count'') \<in> {JUndefined, JNull, JNum (Fin 0)}
            \<longrightarrow> shares (stats doc) = JNum (Fin 0))
       \<and> (get_prop v (lit ''bookmark_count'') \<in> {JUndefined, JNull, JNum (Fin 0)}
            \<longrightarrow> favorites (stats doc) = JNum (Fin 0))
       \<and> (get_prop v (lit ''duration'') \<in> {JUndefined, JNull}
            \<longrightarrow> duration (metadata doc) = JStr (lit ''00:00''))
       \<and> (get_prop v (lit ''filesize'') \<in> {JUndefined, JNull}
            \<and> get_prop v (lit ''filesize_approx'') \<in> {JUndefined, JNull}
            \<longrightarrow> videoSize (metadata doc) = JStr (lit ''N/A''))
       \<and> (get_prop v (lit ''audio_filesize'') \<in> {JUndefined, JNull}
            \<and> get_prop v (lit ''filesize_approx'') \<in> {JUndefined, JNull}
            \<longrightarrow> audioSize (metadata doc) = JStr (lit ''N/A''))
       \<and> (get_prop v (lit ''fps'') \<in> {JUndefined, JNull}
            \<longrightarrow> fps (metadata doc) = JNum (Fin 30))
       \<and> (get_prop v (lit ''tbr'') \<in> {JUndefined, JNull}
            \<longrightarrow> bitrate (metadata doc) = JStr (lit ''N/A''))
       \<and> (get_prop v (lit ''width'') \<in> {JUndefined, JNull}
            \<longrightarrow> width (metadata doc) = JNum (Fin 1080))
       \<and> (get_prop v (lit ''height'') \<in> {JUndefined, JNull}
            \<longrightarrow> height (metadata doc) = JNum (Fin 1920))
       \<and> (get_prop v (lit ''audio_channels'') \<in> {JUndefined, JNull}
            \<longrightarrow> audioChannels (metadata doc) = JNum (Fin 2))
       \<and> (get_prop v (lit ''asr'') \<in> {JUndefined, JNull}
            \<longrightarrow> audioSampleRate (metadata doc) = JStr (lit ''44.1 kHz''))"
proof -
  from responseData_Inr [OF assms] obtain up where
    m: "metadata doc = metadata_of p v up" and s: "stats doc = stats_of v"
    by blast
  have counters:
    "get_prop v (lit ''view_count'') \<in> {JUndefined, JNull, JNum (Fin 0)}
            \<longrightarrow> views (stats doc) = JNum (Fin 0)"
    "get_prop v (lit ''like_count'') \<in> {JUndefined, JNull, JNum (Fin 0)}
            \<longrightarrow> likes (stats doc) = JNum (Fin 0)"
    "get_prop v (lit ''comment_count'') \<in> {JUndefined, JNull, JNum (Fin 0)}
            \<longrightarrow> comments (stats doc) = JNum (Fin 0)"
    "get_prop v (lit ''repost_count'') \<in> {JUndefined, JNull, JNum (Fin 0)}
            \<longrightarrow> shares (stats doc) = JNum (Fin 0)"
    "get_prop v (lit ''bookmark_count'') \<in> {JUndefined, JNull, JNum (Fin 0)}
            \<longrightarrow> favorites (stats doc) = JNum (Fin 0)"
    by (auto simp: s stats_of_def jor_def)
  have sizes:
    "get_prop v (lit ''duration'') \<in> {JUndefined, JNull}
            \<longrightarrow> duration (metadata doc) = JStr (lit ''00:00'')"
    "get_prop v (lit ''filesize'') \<in> {JUndefined, JNull}
            \<and> get_prop v (lit ''filesize_approx'') \<in> {JUndefined, JNull}
            \<longrightarrow> videoSize (metadata doc) = JStr (lit ''N/A'')"
    "get_prop v (lit ''audio_filesize'') \<in> {JUndefined, JNull}
            \<and> get_prop v (lit ''filesize_approx'') \<in> {JUndefined, JNull}
            \<longrightarrow> audioSize (metadata doc) = JStr (lit ''N/A'')"
    using to_number_missing [of "get_prop v (lit ''filesize_approx'')" p "literal (1 / 10)"]
    by (auto simp: m metadata_of_def jor_def formatDuration_def formatFileSize_def
             simp del: truthy.simps(4))
  have others:
    "get_prop v (lit ''fps'') \<in> {JUndefined, JNull}
            \<longrightarrow> fps (metadata doc) = JNum (Fin 30)"
    "get_prop v (lit ''tbr'') \<in> {JUndefined, JNull}
            \<longrightarrow> bitrate (metadata doc) = JStr (lit ''N/A'')"
    "get_prop v (lit ''width'') \<in> {JUndefined, JNull}
            \<longrightarrow> width (metadata doc) = JNum (Fin 1080)"
    "get_prop v (lit ''height'') \<in> {JUndefined, JNull}
            \<longrightarrow> height (metadata doc) = JNum (Fin 1920)"
    "get_prop v (lit ''audio_channels'') \<in> {JUndefined, JNull}
            \<longrightarrow> audioChannels (metadata doc) = JNum (Fin 2)"
    "get_prop v (lit ''asr'') \<in> {JUndefined, JNull}
            \<longrightarrow> audioSampleRate (metadata doc) = JStr (lit ''44.1 kHz'')"
    by (auto simp: m metadata_of_def jor_def)
  from counters sizes others show ?thesis
    by blast
qed

theorem numeric_defaults_witness:
  "get_prop (JObj [(lit ''like_count'', JNull)]) (lit ''like_count'') = JNull
   \<and> map_sum id (likes \<circ> stats)
        (responseData sample_platform (lit ''https://www.tiktok.com/@a/video/1'')
           (JObj [(lit ''like_count'', JNull)])) = Inr (JNum (Fin 0))
   \<and> map_sum id (views \<circ> stats)
        (responseData sample_platform (lit ''https://www.tiktok.com/@a/video/1'')
           (JObj [(lit ''like_count'', JNull)])) = Inr (JNum (Fin 0))
   \<and> map_sum id (duration \<circ> metadata)
        (responseData sample_platform (lit ''https://www.tiktok.com/@a/video/1'')
           (JObj [(lit ''like_count'', JNull)])) = Inr (JStr (lit ''00:00''))
   \<and> map_sum id (videoSize \<circ> metadata)
        (responseData sample_platform (lit ''https://www.tiktok.com/@a/video/1'')
           (JObj [(lit ''like_count'', JNull)])) = Inr (JStr (lit ''N/A''))
   \<and> map_sum id (audioSize \<circ> metadata)
        (responseData sample_platform (lit ''https://www.tiktok.com/@a/video/1'')
           (JObj [(lit ''like_count'', JNull)])) = Inr (JStr (lit ''N/A''))
   \<and> map_sum id (fps \<circ> metadata)
        (responseData sample_platform (lit ''https://www.tiktok.com/@a/video/1'')
           (JObj [(lit ''like_count'', JNull)])) = Inr (JNum (Fin 30))
   \<and> map_sum id (audioSampleRate \<circ> metadata)
        (responseData sample_platform (lit ''https://www.tiktok.com/@a/video/1'')
           (JObj [(lit ''like_count'', JNull)])) = Inr (JStr (lit ''44.1 kHz''))"
proof -
  let ?v = "JObj [(lit ''like_count'', JNull)]"
  have "\<exists>doc. responseData sample_platform (lit ''https://www.tiktok.com/@a/video/1'') ?v = Inr doc"
    by (rule responseData_plain [OF sample_encodes]) (simp_all add: lit_def)
  then obtain doc where
    d: "responseData sample_platform (lit ''https://www.tiktok.com/@a/video/1'') ?v = Inr doc"
    by blast
  have k: "get_prop ?v (lit ''like_count'') = JNull"
    "get_prop ?v (lit ''view_count'') = JUndefined"
    "get_prop ?v (lit ''duration'') = JUndefined"
    "get_prop ?v (lit ''filesize'') = JUndefined"
    "get_prop ?v (lit ''filesize_approx'') = JUndefined"
    "get_prop ?v (lit ''audio_filesize'') = JUndefined"
    "get_prop ?v (lit ''fps'') = JUndefined"
    "get_prop ?v (lit ''asr'') = JUndefined"
    by (simp_all add: lit_def)
  from numeric_defaults [OF d]
  have "likes (stats doc) = JNum (Fin 0)" "views (stats doc) = JNum (Fin 0)"
    "duration (metadata doc) = JStr (lit ''00:00'')"
    "videoSize (metadata doc) = JStr (lit ''N/A'')"
    "audioSize (metadata doc) = JStr (lit ''N/A'')"
    "fps (metadata doc) = JNum (Fin 30)"
    "audioSampleRate (metadata doc) = JStr (lit ''44.1 kHz'')"
    unfolding k by simp_all
  with d k(1) show ?thesis
    by simp
qed

text \<open>
  Claim C7 as stated fails in its last part: the extractor output that reports
  \<open>view_count\<close> as 0 and the output without \<open>view_count\<close> get the same response.
\<close>

theorem zero_counter_counterexample:
  "get_prop (JObj [(lit ''view_count'', JNum (Fin 0))]) (lit ''view_count'') = JNum (Fin 0)
   \<and> get_prop (JObj []) (lit ''view_count'') = JUndefined
   \<and> responseData sample_platform (lit ''https://www.tiktok.com/@a/video/1'')
         (JObj [(lit ''view_count'', JNum (Fin 0))])
       = responseData sample_platform (lit ''https://www.tiktok.com/@a/video/1'') (JObj [])
   \<and> map_sum id (views \<circ> stats)
         (responseData sample_platform (lit ''https://www.tiktok.com/@a/video/1'') (JObj []))
       = Inr (JNum (Fin 0))"
proof -
  from responseData_plain [OF sample_encodes, of "JObj []"]
  obtain doc where
    d: "responseData sample_platform (lit ''https://www.tiktok.com/@a/video/1'') (JObj []) = Inr doc"
    by auto
  from responseData_Inr [OF d] have "stats doc = stats_of (JObj [])"
    by blast
  then have "views (stats doc) = JNum (Fin 0)"
    by (simp add: stats_of_def jor_def)
  with d zero_counter_same_response [of sample_platform] show ?thesis
    by simp
qed

text \<open>
  Claim C8, as amended. \<open>formatFileSize\<close> is "N/A" for a byte count that is absent or 0.
  For any other finite count it divides by 1024 twice and prints the quotient with
  \<open>toFixed(2)\<close> and " MB": when the quotient is below \<open>10 ^ 21\<close> in magnitude this is the
  quotient rounded to the nearest hundredth, with exactly two decimals. Both divisions are
  exact for a positive double that is not among the smallest ones, and so for every
  positive integer below \<open>2 ^ 53\<close>. \<open>metadata.videoSize\<close> applies it to \<open>filesize\<close>,
  falling back to \<open>filesize_approx\<close> when \<open>filesize\<close> is absent or 0;
  \<open>metadata.audioSize\<close> applies it to \<open>audio_filesize\<close>, falling back to
  \<open>filesize_approx * 0.1\<close>.
\<close>

theorem file_size_rendering:
  assumes "responseData p url v = Inr doc"
  shows "formatFileSize p JUndefined = lit ''N/A'' \<and> formatFileSize p JNull = lit ''N/A''
       \<and> formatFileSize p (JNum (Fin 0)) = lit ''N/A''
       \<and> (\<forall>x. x \<noteq> 0 \<longrightarrow>
             formatFileSize p (JNum (Fin x))
               = toFixed p 2 (js_div (js_div (Fin x) 1024) 1024) @ lit '' MB'')
       \<and> (\<forall>x y. x \<noteq> 0 \<and> js_div (js_div (Fin x) 1024) 1024 = Fin y \<and> \<bar>y\<bar> < 10 ^ 21 \<longrightarrow>
             formatFileSize p (JNum (Fin x)) = two_decimals y @ lit '' MB'')
       \<and> (\<forall>m e. 0 < m \<and> m < 2 ^ 53 \<and> - 1054 \<le> e \<and> of_int m * 2 powi e < (2::rat) powi 1024 \<longrightarrow>
             js_div (js_div (Fin (of_int m * 2 powi e)) 1024) 1024
               = Fin (of_int m * 2 powi e / 1048576))
       \<and> (\<forall>n. 0 < n \<and> n < 2 ^ 53 \<longrightarrow>
             formatFileSize p (JNum (Fin (of_nat n)))
               = digits ((n * 100 + 524288) div 1048576 div 100) @ lit ''.'' @
                 [digit ((n * 100 + 524288) div 1048576 div 10 mod 10),
                  digit ((n * 100 + 524288) div 1048576 mod 10)] @ lit '' MB'')
       \<and> videoSize (metadata doc) =
           JStr (formatFileSize p
             (if truthy (get_prop v (lit ''filesize'')) then get_prop v (lit ''filesize'')
              else get_prop v (lit ''filesize_approx'')))
       \<and> audioSize (metadata doc) =
           JStr (formatFileSize p
             (if truthy (get_prop v (lit ''audio_filesize'')) then get_prop v (lit ''audio_filesize'')
              else JNum (js_mul (to_number p (get_prop v (lit ''filesize_approx'')))
                                (literal (1 / 10)))))"
proof -
  from responseData_Inr [OF assms] obtain up where m: "metadata doc = metadata_of p v up"
    by blast
  have absent: "formatFileSize p JUndefined = lit ''N/A''" "formatFileSize p JNull = lit ''N/A''"
    "formatFileSize p (JNum (Fin 0)) = lit ''N/A''"
    by (simp_all add: formatFileSize_def)
  have general: "\<forall>x. x \<noteq> 0 \<longrightarrow>
             formatFileSize p (JNum (Fin x))
               = toFixed p 2 (js_div (js_div (Fin x) 1024) 1024) @ lit '' MB''"
    by (simp add: formatFileSize_def Let_def del: toFixed.simps js_div.simps)
  have rounded: "\<forall>x y. x \<noteq> 0 \<and> js_div (js_div (Fin x) 1024) 1024 = Fin y \<and> \<bar>y\<bar> < 10 ^ 21 \<longrightarrow>
             formatFileSize p (JNum (Fin x)) = two_decimals y @ lit '' MB''"
    using general toFixed_two_decimals by simp
  have exact: "\<forall>m e. 0 < m \<and> m < 2 ^ 53 \<and> - 1054 \<le> e \<and> of_int m * 2 powi e < (2::rat) powi 1024 \<longrightarrow>
             js_div (js_div (Fin (of_int m * 2 powi e)) 1024) 1024
               = Fin (of_int m * 2 powi e / 1048576)"
    using div_1024_twice_double by blast
  have bytes: "\<forall>n. 0 < n \<and> n < 2 ^ 53 \<longrightarrow>
             formatFileSize p (JNum (Fin (of_nat n)))
               = digits ((n * 100 + 524288) div 1048576 div 100) @ lit ''.'' @
                 [digit ((n * 100 + 524288) div 1048576 div 10 mod 10),
                  digit ((n * 100 + 524288) div 1048576 mod 10)] @ lit '' MB''"
    using formatFileSize_bytes by blast
  have fields: "videoSize (metadata doc) =
           JStr (formatFileSize p
             (if truthy (get_prop v (lit ''filesize'')) then get_prop v (lit ''filesize'')
              else get_prop v (lit ''filesize_approx'')))"
     "audioSize (metadata doc) =
           JStr (formatFileSize p
             (if truthy (get_prop v (lit ''audio_filesize'')) then get_prop v (lit ''audio_filesize'')
              else JNum (js_mul (to_number p (get_prop v (lit ''filesize_approx'')))
                                (literal (1 / 10)))))"
    by (simp_all add: m metadata_of_def jor_def)
  from absent general rounded exact bytes fields show ?thesis
    by blast
qed

theorem file_size_rendering_witness:
  "map_sum id (videoSize \<circ> metadata)
     (responseData sample_platform (lit ''https://www.tiktok.com/@a/video/1'')
        (JObj [(lit ''filesize_approx'', JNum (Fin 10485760))])) = Inr (JStr (lit ''10.00 MB''))
   \<and> map_sum id (audioSize \<circ> metadata)
     (responseData sample_platform (lit ''https://www.tiktok.com/@a/video/1'')
        (JObj [(lit ''filesize_approx'', JNum (Fin 10485760))])) = Inr (JStr (lit ''1.00 MB''))
   \<and> js_mul (Fin 1234567) (literal (1 / 10)) = Fin (2120969955888333 / 17179869184)
   \<and> formatFileSize sample_platform (JNum (Fin (2120969955888333 / 17179869184)))
       = lit ''0.12 MB''"
proof -
  let ?v = "JObj [(lit ''filesize_approx'', JNum (Fin 10485760))]"
  have "\<exists>doc. responseData sample_platform (lit ''https://www.tiktok.com/@a/video/1'') ?v = Inr doc"
    by (rule responseData_plain [OF sample_encodes]) (simp_all add: lit_def)
  then obtain doc where
    d: "responseData sample_platform (lit ''https://www.tiktok.com/@a/video/1'') ?v = Inr doc"
    by blast
  have k: "get_prop ?v (lit ''filesize'') = JUndefined"
    "get_prop ?v (lit ''audio_filesize'') = JUndefined"
    "get_prop ?v (lit ''filesize_approx'') = JNum (Fin 10485760)"
    by (simp_all add: lit_def)
  note t = file_size_rendering [OF d]
  note rounded = t [THEN conjunct2, THEN conjunct2, THEN conjunct2, THEN conjunct2,
                    THEN conjunct1, rule_format]
  note bytes = t [THEN conjunct2, THEN conjunct2, THEN conjunct2, THEN conjunct2,
                  THEN conjunct2, THEN conjunct2, THEN conjunct1, rule_format]
  have big: "formatFileSize sample_platform (JNum (Fin (of_nat 10485760))) = lit ''10.00 MB''"
    by (subst bytes) (simp_all add: digits_10 digit_def lit_def)
  have small: "formatFileSize sample_platform (JNum (Fin (of_nat 1048576))) = lit ''1.00 MB''"
    by (subst bytes) (simp_all add: digits_1 digit_def lit_def)
  have "formatFileSize sample_platform (JNum (Fin (2120969955888333 / 17179869184)))
          = two_decimals (2120969955888333 / 18014398509481984) @ lit '' MB''"
    by (rule rounded) (simp add: quotient_of_odd_sample del: js_div.simps)
  then have odd: "formatFileSize sample_platform (JNum (Fin (2120969955888333 / 17179869184)))
          = lit ''0.12 MB''"
    by (simp add: two_decimals_odd_sample lit_append)
  from t have "videoSize (metadata doc) = JStr (lit ''10.00 MB'')"
    and "audioSize (metadata doc) = JStr (lit ''1.00 MB'')"
    unfolding k using big small by (simp_all add: tenth_of_sample del: js_mul.simps)
  with d odd tenth_of_odd_sample show ?thesis
    by simp
qed

text \<open>
  Claim C8 as stated fails: a byte count of 0 is not absent, and divided by 1024 twice with
  two decimals it would be "0.00 MB"; \<open>formatFileSize\<close> returns "N/A" for it, and so does
  \<open>metadata.videoSize\<close> for an extractor output whose \<open>filesize\<close> is 0.
\<close>

theorem zero_bytes_counterexample:
  "formatFileSize sample_platform (JNum (Fin 0)) = lit ''N/A''
   \<and> get_prop (JObj [(lit ''filesize'', JNum (Fin 0))]) (lit ''filesize'') = JNum (Fin 0)
   \<and> map_sum id (videoSize \<circ> metadata)
        (responseData sample_platform (lit ''https://www.tiktok.com/@a/video/1'')
           (JObj [(lit ''filesize'', JNum (Fin 0))])) = Inr (JStr (lit ''N/A''))
   \<and> two_decimals 0 @ lit '' MB'' = lit ''0.00 MB''
   \<and> lit ''N/A'' \<noteq> lit ''0.00 MB''"
proof -
  let ?v = "JObj [(lit ''filesize'', JNum (Fin 0))]"
  have z: "formatFileSize sample_platform (JNum (Fin 0)) = lit ''N/A''"
    by (simp add: formatFileSize_def)
  have "\<exists>doc. responseData sample_platform (lit ''https://www.tiktok.com/@a/video/1'') ?v = Inr doc"
    by (rule responseData_plain [OF sample_encodes]) (simp_all add: lit_def)
  then obtain doc where
    d: "responseData sample_platform (lit ''https://www.tiktok.com/@a/video/1'') ?v = Inr doc"
    by blast
  have k: "get_prop ?v (lit ''filesize'') = JNum (Fin 0)"
    "get_prop ?v (lit ''filesize_approx'') = JUndefined"
    by (simp_all add: lit_def)
  from responseData_Inr [OF d] obtain up where m: "metadata doc = metadata_of sample_platform ?v up"
    by blast
  have "videoSize (metadata doc) = JStr (formatFileSize sample_platform
          (jor (get_prop ?v (lit ''filesize'')) (get_prop ?v (lit ''filesize_approx''))))"
    by (simp add: m metadata_of_def)
  then have vs: "videoSize (metadata doc) = JStr (lit ''N/A'')"
    unfolding k by (simp add: jor_def formatFileSize_def)
  have ne: "lit ''N/A'' \<noteq> lit ''0.00 MB''"
    by (simp add: lit_def)
  have td: "two_decimals 0 @ lit '' MB'' = lit ''0.00 MB''"
    by (simp add: two_decimals_zero lit_append)
  from z k(1) d vs td ne show ?thesis
    by simp
qed

text \<open>
  Claim C9, as amended. \<open>metadata.resolution\<close> is width, "x", height, where each
  dimension has its own default: a width that is missing (or 0) is 1080 and a height that
  is missing (or 0) is 1920. The string is "1080x1920" when both are missing; when one is
  missing, the other keeps the extractor's value, printed with its digits when it is a
  positive integer below \<open>2 ^ 53\<close>.
\<close>

theorem resolution_defaults_per_dimension:
  assumes "responseData p url v = Inr doc"
  shows "resolution (metadata doc) =
           JStr ((if truthy (get_prop v (lit ''width'')) then to_string p (get_prop v (lit ''width''))
                  else lit ''1080'') @ lit ''x'' @
                 (if truthy (get_prop v (lit ''height'')) then to_string p (get_prop v (lit ''height''))
                  else lit ''1920''))
       \<and> (get_prop v (lit ''width'') \<in> {JUndefined, JNull, JNum (Fin 0)}
          \<and> get_prop v (lit ''height'') \<in> {JUndefined, JNull, JNum (Fin 0)}
          \<longrightarrow> resolution (metadata doc) = JStr (lit ''1080x1920''))
       \<and> (\<forall>w. 0 < w \<and> w < 2 ^ 53 \<and> get_prop v (lit ''width'') = JNum (Fin (of_nat w))
               \<and> get_prop v (lit ''height'') \<in> {JUndefined, JNull, JNum (Fin 0)}
          \<longrightarrow> resolution (metadata doc) = JStr (digits w @ lit ''x1920''))
       \<and> (\<forall>h. 0 < h \<and> h < 2 ^ 53
               \<and> get_prop v (lit ''width'') \<in> {JUndefined, JNull, JNum (Fin 0)}
               \<and> get_prop v (lit ''height'') = JNum (Fin (of_nat h))
          \<longrightarrow> resolution (metadata doc) = JStr (lit ''1080x'' @ digits h))
       \<and> (\<forall>w h. 0 < w \<and> w < 2 ^ 53 \<and> 0 < h \<and> h < 2 ^ 53
               \<and> get_prop v (lit ''width'') = JNum (Fin (of_nat w))
               \<and> get_prop v (lit ''height'') = JNum (Fin (of_nat h))
          \<longrightarrow> resolution (metadata doc) = JStr (digits w @ lit ''x'' @ digits h))"
proof -
  from responseData_Inr [OF assms] obtain up where m: "metadata doc = metadata_of p v up"
    by blast
  have d1: "to_string p (JNum (Fin 1080)) = lit ''1080''"
    using num_to_string_nat [of 1080 p] by (simp add: digits_1080)
  have d2: "to_string p (JNum (Fin 1920)) = lit ''1920''"
    using num_to_string_nat [of 1920 p] by (simp add: digits_1920)
  have r: "resolution (metadata doc) =
           JStr ((if truthy (get_prop v (lit ''width'')) then to_string p (get_prop v (lit ''width''))
                  else lit ''1080'') @ lit ''x'' @
                 (if truthy (get_prop v (lit ''height'')) then to_string p (get_prop v (lit ''height''))
                  else lit ''1920''))"
    unfolding m resolution_of using d1 d2 by (simp add: jor_def del: to_string.simps)
  show ?thesis
    unfolding r
    by (auto simp: lit_append to_string_nat simp del: to_string.simps)
qed

theorem resolution_defaults_per_dimension_witness:
  "get_prop (JObj [(lit ''width'', JNum (Fin 576)), (lit ''height'', JNum (Fin 1024))]) (lit ''width'')
     = JNum (Fin 576)
   \<and> map_sum id (resolution \<circ> metadata)
        (responseData sample_platform (lit ''https://www.tiktok.com/@a/video/1'')
           (JObj [(lit ''width'', JNum (Fin 576)), (lit ''height'', JNum (Fin 1024))]))
       = Inr (JStr (lit ''576x1024''))
   \<and> map_sum id (resolution \<circ> metadata)
        (responseData sample_platform (lit ''https://www.tiktok.com/@a/video/1'')
           (JObj [(lit ''width'', JNum (Fin 0))]))
       = Inr (JStr (lit ''1080x1920''))"
proof -
  let ?v = "JObj [(lit ''width'', JNum (Fin 576)), (lit ''height'', JNum (Fin 1024))]"
  let ?z = "JObj [(lit ''width'', JNum (Fin 0))]"
  have w: "get_prop ?v (lit ''width'') = JNum (Fin (of_nat 576))"
    by simp
  have h: "get_prop ?v (lit ''height'') = JNum (Fin (of_nat 1024))"
    by (simp add: lit_def)
  have "\<exists>doc. responseData sample_platform (lit ''https://www.tiktok.com/@a/video/1'') ?v = Inr doc"
    by (rule responseData_plain [OF sample_encodes]) (simp_all add: lit_def)
  then obtain doc where
    d: "responseData sample_platform (lit ''https://www.tiktok.com/@a/video/1'') ?v = Inr doc"
    by blast
  note r = resolution_defaults_per_dimension [OF d, THEN conjunct2, THEN conjunct2,
               THEN conjunct2, THEN conjunct2, rule_format, of 576 1024]
  have "resolution (metadata doc) = JStr (digits 576 @ lit ''x'' @ digits 1024)"
    by (rule r) (simp add: lit_def)
  then have 1: "resolution (metadata doc) = JStr (lit ''576x1024'')"
    by (simp add: digits_576 digits_1024 lit_append)
  have "\<exists>doc. responseData sample_platform (lit ''https://www.tiktok.com/@a/video/1'') ?z = Inr doc"
    by (rule responseData_plain [OF sample_encodes]) (simp_all add: lit_def)
  then obtain doc' where
    d': "responseData sample_platform (lit ''https://www.tiktok.com/@a/video/1'') ?z = Inr doc'"
    by blast
  have kz: "get_prop ?z (lit ''width'') = JNum (Fin 0)" "get_prop ?z (lit ''height'') = JUndefined"
    by (simp_all add: lit_def)
  note both = resolution_defaults_per_dimension [OF d', THEN conjunct2, THEN conjunct1, rule_format]
  have 2: "resolution (metadata doc') = JStr (lit ''1080x1920'')"
    by (rule both) (simp add: kz)
  from d d' w 1 2 show ?thesis by simp
qed

text \<open>
  Claim C9 as stated fails: with the width missing and a height of 720 the resolution is
  "1080x720", not "1080x1920".
\<close>

theorem resolution_one_dimension_missing_counterexample:
  "get_prop (JObj [(lit ''height'', JNum (Fin 720))]) (lit ''width'') = JUndefined
   \<and> map_sum id (resolution \<circ> metadata)
        (responseData sample_platform (lit ''https://www.tiktok.com/@a/video/1'')
           (JObj [(lit ''height'', JNum (Fin 720))]))
       = Inr (JStr (lit ''1080x720''))
   \<and> lit ''1080x720'' \<noteq> lit ''1080x1920''"
proof -
  let ?v = "JObj [(lit ''height'', JNum (Fin 720))]"
  have w: "get_prop ?v (lit ''width'') = JUndefined"
    by (simp add: lit_def)
  have "\<exists>doc. responseData sample_platform (lit ''https://www.tiktok.com/@a/video/1'') ?v = Inr doc"
    by (rule responseData_plain [OF sample_encodes]) (simp_all add: lit_def)
  then obtain doc where
    d: "responseData sample_platform (lit ''https://www.tiktok.com/@a/video/1'') ?v = Inr doc"
    by blast
  from responseData_Inr [OF d] obtain up where m: "metadata doc = metadata_of sample_platform ?v up"
    by blast
  have hv: "get_prop ?v (lit ''height'') = JNum (Fin (of_nat 720))"
    by simp
  have "resolution (metadata doc) = JStr (digits 1080 @ lit ''x'' @ digits 720)"
    unfolding m resolution_of w hv
    using to_string_nat [of 1080 sample_platform] to_string_nat [of 720 sample_platform]
    by (simp add: jor_def del: to_string.simps)
  then have r: "resolution (metadata doc) = JStr (lit ''1080x720'')"
    by (simp add: digits_1080 digits_720 lit_append)
  have ne: "lit ''1080x720'' \<noteq> lit ''1080x1920''"
    by (simp add: lit_def)
  from w d r ne show ?thesis by simp
qed




end
